theory Spec2Isabelle
  imports Complex_Main "HOL-Library.Sublist"
begin

text \<open>
  A model of the scoring engine of the Wecraft engineer-discovery platform: the trust,
  impact, compatibility and recruiter-match calculators, each translated function by
  function from its TypeScript source, followed by the properties of the engine that
  have been proved or refuted on the model.
\<close>

section \<open>JavaScript numbers\<close>

text \<open>
  The scoring engine computes with JavaScript \<^verbatim>\<open>number\<close>s. They are modelled as the
  reals extended by the three special values that the calculators can produce through
  an unguarded division: \<open>PInf\<close> (\<^verbatim>\<open>Infinity\<close>), \<open>NInf\<close> (\<^verbatim>\<open>-Infinity\<close>) and \<open>NaN\<close>.
  Finite arithmetic is exact (rounding of doubles is not modelled) and zero is unsigned.
  The operators follow IEEE 754 on the special values: \<open>0 / 0\<close> is \<open>NaN\<close>, every
  comparison with \<open>NaN\<close> is false, \<^verbatim>\<open>Math.min\<close> and \<^verbatim>\<open>Math.max\<close> return \<open>NaN\<close> as soon
  as one argument is \<open>NaN\<close>.
\<close>

datatype jsnum = Fin real | PInf | NInf | NaN

instantiation jsnum :: "{plus, minus, uminus, times, inverse, ord}"
begin

fun uminus_jsnum :: "jsnum \<Rightarrow> jsnum" where
  "uminus_jsnum (Fin a) = Fin (- a)"
| "uminus_jsnum PInf = NInf"
| "uminus_jsnum NInf = PInf"
| "uminus_jsnum NaN = NaN"

fun plus_jsnum :: "jsnum \<Rightarrow> jsnum \<Rightarrow> jsnum" where
  "plus_jsnum (Fin a) (Fin b) = Fin (a + b)"
| "plus_jsnum (Fin a) PInf = PInf"
| "plus_jsnum (Fin a) NInf = NInf"
| "plus_jsnum PInf (Fin b) = PInf"
| "plus_jsnum PInf PInf = PInf"
| "plus_jsnum PInf NInf = NaN"
| "plus_jsnum NInf (Fin b) = NInf"
| "plus_jsnum NInf NInf = NInf"
| "plus_jsnum NInf PInf = NaN"
| "plus_jsnum NaN y = NaN"
| "plus_jsnum x NaN = NaN"

fun minus_jsnum :: "jsnum \<Rightarrow> jsnum \<Rightarrow> jsnum" where
  "minus_jsnum (Fin a) (Fin b) = Fin (a - b)"
| "minus_jsnum (Fin a) PInf = NInf"
| "minus_jsnum (Fin a) NInf = PInf"
| "minus_jsnum PInf (Fin b) = PInf"
| "minus_jsnum PInf PInf = NaN"
| "minus_jsnum PInf NInf = PInf"
| "minus_jsnum NInf (Fin b) = NInf"
| "minus_jsnum NInf NInf = NaN"
| "minus_jsnum NInf PInf = NInf"
| "minus_jsnum NaN y = NaN"
| "minus_jsnum x NaN = NaN"

fun times_jsnum :: "jsnum \<Rightarrow> jsnum \<Rightarrow> jsnum" where
  "times_jsnum (Fin a) (Fin b) = Fin (a * b)"
| "times_jsnum (Fin a) PInf = (if 0 < a then PInf else if a < 0 then NInf else NaN)"
| "times_jsnum (Fin a) NInf = (if 0 < a then NInf else if a < 0 then PInf else NaN)"
| "times_jsnum PInf (Fin b) = (if 0 < b then PInf else if b < 0 then NInf else NaN)"
| "times_jsnum NInf (Fin b) = (if 0 < b then NInf else if b < 0 then PInf else NaN)"
| "times_jsnum PInf PInf = PInf"
| "times_jsnum PInf NInf = NInf"
| "times_jsnum NInf PInf = NInf"
| "times_jsnum NInf NInf = PInf"
| "times_jsnum NaN y = NaN"
| "times_jsnum x NaN = NaN"

fun divide_jsnum :: "jsnum \<Rightarrow> jsnum \<Rightarrow> jsnum" where
  "divide_jsnum (Fin a) (Fin b) =
     (if b = 0 then (if a = 0 then NaN else if 0 < a then PInf else NInf)
      else Fin (a / b))"
| "divide_jsnum (Fin a) PInf = Fin 0"
| "divide_jsnum (Fin a) NInf = Fin 0"
| "divide_jsnum PInf (Fin b) = (if 0 \<le> b then PInf else NInf)"
| "divide_jsnum NInf (Fin b) = (if 0 \<le> b then NInf else PInf)"
| "divide_jsnum PInf PInf = NaN"
| "divide_jsnum PInf NInf = NaN"
| "divide_jsnum NInf PInf = NaN"
| "divide_jsnum NInf NInf = NaN"
| "divide_jsnum NaN y = NaN"
| "divide_jsnum x NaN = NaN"

definition inverse_jsnum :: "jsnum \<Rightarrow> jsnum" where
  "inverse_jsnum x = divide (Fin 1) x"

fun less_jsnum :: "jsnum \<Rightarrow> jsnum \<Rightarrow> bool" where
  "less_jsnum (Fin a) (Fin b) = (a < b)"
| "less_jsnum (Fin a) PInf = True"
| "less_jsnum (Fin a) NInf = False"
| "less_jsnum PInf y = False"
| "less_jsnum NInf (Fin b) = True"
| "less_jsnum NInf PInf = True"
| "less_jsnum NInf NInf = False"
| "less_jsnum NaN y = False"
| "less_jsnum x NaN = False"

fun less_eq_jsnum :: "jsnum \<Rightarrow> jsnum \<Rightarrow> bool" where
  "less_eq_jsnum (Fin a) (Fin b) = (a \<le> b)"
| "less_eq_jsnum (Fin a) PInf = True"
| "less_eq_jsnum (Fin a) NInf = False"
| "less_eq_jsnum PInf PInf = True"
| "less_eq_jsnum PInf (Fin b) = False"
| "less_eq_jsnum PInf NInf = False"
| "less_eq_jsnum NInf (Fin b) = True"
| "less_eq_jsnum NInf PInf = True"
| "less_eq_jsnum NInf NInf = True"
| "less_eq_jsnum NaN y = False"
| "less_eq_jsnum x NaN = False"

instance ..

end

text \<open>\<^verbatim>\<open>a === b\<close> on numbers: \<open>NaN\<close> is not equal to itself.\<close>

fun jeq :: "jsnum \<Rightarrow> jsnum \<Rightarrow> bool" where
  "jeq NaN y = False"
| "jeq x NaN = False"
| "jeq x y = (x = y)"

text \<open>\<^verbatim>\<open>Math.min\<close>, \<^verbatim>\<open>Math.max\<close>, \<^verbatim>\<open>Math.log10\<close> and \<^verbatim>\<open>Math.pow\<close>.\<close>

fun jmin :: "jsnum \<Rightarrow> jsnum \<Rightarrow> jsnum" where
  "jmin NaN y = NaN"
| "jmin x NaN = NaN"
| "jmin x y = (if x < y then x else y)"

fun jmax :: "jsnum \<Rightarrow> jsnum \<Rightarrow> jsnum" where
  "jmax NaN y = NaN"
| "jmax x NaN = NaN"
| "jmax x y = (if x < y then y else x)"

fun jlog10 :: "jsnum \<Rightarrow> jsnum" where
  "jlog10 (Fin a) = (if 0 < a then Fin (log 10 a) else if a = 0 then NInf else NaN)"
| "jlog10 PInf = PInf"
| "jlog10 NInf = NaN"
| "jlog10 NaN = NaN"

definition is_integer :: "real \<Rightarrow> bool" where
  "is_integer e = (of_int (floor e) = e)"

definition is_odd_integer :: "real \<Rightarrow> bool" where
  "is_odd_integer e = (is_integer e \<and> odd (floor e))"

fun jpow :: "jsnum \<Rightarrow> jsnum \<Rightarrow> jsnum" where
  "jpow x (Fin e) =
     (if e = 0 then Fin 1
      else case x of
        NaN \<Rightarrow> NaN
      | PInf \<Rightarrow> (if 0 < e then PInf else Fin 0)
      | NInf \<Rightarrow> (if 0 < e then (if is_odd_integer e then NInf else PInf) else Fin 0)
      | Fin b \<Rightarrow>
          (if 0 < b then Fin (b powr e)
           else if b = 0 then (if 0 < e then Fin 0 else PInf)
           else if is_integer e
             then Fin ((if is_odd_integer e then - 1 else 1) * ((- b) powr e))
           else NaN))"
| "jpow x NaN = NaN"
| "jpow x PInf =
     (case x of
        NaN \<Rightarrow> NaN
      | PInf \<Rightarrow> PInf
      | NInf \<Rightarrow> PInf
      | Fin b \<Rightarrow> (if 1 < \<bar>b\<bar> then PInf else if \<bar>b\<bar> = 1 then NaN else Fin 0))"
| "jpow x NInf =
     (case x of
        NaN \<Rightarrow> NaN
      | PInf \<Rightarrow> Fin 0
      | NInf \<Rightarrow> Fin 0
      | Fin b \<Rightarrow> (if 1 < \<bar>b\<bar> then Fin 0 else if \<bar>b\<bar> = 1 then NaN else PInf))"

text \<open>Truthiness of a number (\<^verbatim>\<open>x || d\<close>): zero and \<open>NaN\<close> are falsy.\<close>

fun truthy_num :: "jsnum \<Rightarrow> bool" where
  "truthy_num (Fin a) = (\<not> a = 0)"
| "truthy_num NaN = False"
| "truthy_num x = True"

definition of_len :: "'a list \<Rightarrow> jsnum" where
  "of_len xs = Fin (real (length xs))"

definition of_count :: "nat \<Rightarrow> jsnum" where
  "of_count n = Fin (real n)"


section \<open>Strings\<close>

text \<open>
  Strings are lists of characters. \<open>join\<close> is \<^verbatim>\<open>Array.prototype.join\<close>, \<open>str_includes\<close> is
  \<^verbatim>\<open>String.prototype.includes\<close> and \<open>show_nat\<close> prints a non-negative integer the way a
  template literal does.
\<close>

fun join :: "string \<Rightarrow> string list \<Rightarrow> string" where
  "join sep [] = []"
| "join sep [x] = x"
| "join sep (x # y # ys) = x @ sep @ join sep (y # ys)"

fun str_includes :: "string \<Rightarrow> string \<Rightarrow> bool" where
  "str_includes [] needle = (needle = [])"
| "str_includes (c # cs) needle = (prefix needle (c # cs) \<or> str_includes cs needle)"

definition digit_char :: "nat \<Rightarrow> char" where
  "digit_char d = ''0123456789'' ! d"

function show_nat :: "nat \<Rightarrow> string" where
  "show_nat n = (if n < 10 then [digit_char n] else show_nat (n div 10) @ [digit_char (n mod 10)])"
  by pat_completeness auto
termination
  by (relation "measure id") auto

section \<open>Data model\<close>

subsection \<open>GitHub activity records\<close>

text \<open>
  The records of \<^verbatim>\<open>types/github.ts\<close>. A \<^verbatim>\<open>Date\<close> is what its \<^verbatim>\<open>getTime()\<close> returns, the
  milliseconds since the epoch; a nullable field is an \<open>option\<close>. Field names carry a
  short prefix of their record, because the interfaces share many names.
\<close>

type_synonym Date = int

record MergedPR =
  mpr_id :: string
  mpr_repository :: string
  mpr_mergedAt :: Date
  mpr_mergedBy :: string
  mpr_author :: string
  mpr_reviewCommentsReceived :: jsnum
  mpr_reviewRounds :: jsnum
  mpr_filesChanged :: jsnum
  mpr_directoriesTouched :: jsnum
  mpr_isMaintainerMerge :: bool
  mpr_isFork :: bool
  mpr_timeToMerge :: jsnum

record CodeReview =
  cr_id :: string
  cr_repository :: string
  cr_prId :: string
  cr_reviewedAt :: Date
  cr_reviewer :: string
  cr_reviewee :: string
  cr_commentCount :: jsnum

record Issue =
  iss_id :: string
  iss_repository :: string
  iss_openedAt :: Date
  iss_author :: string
  iss_ledToMergedPR :: bool
  iss_commentCount :: jsnum

record RepositoryContribution =
  rc_repository :: string
  rc_mergedPRCount :: jsnum
  rc_isFork :: bool
  rc_contributorCount :: jsnum
  rc_maintainerCount :: jsnum

record ActivitySpan =
  firstPRDate :: Date
  lastPRDate :: Date

record GitHubActivity =
  mergedPRs :: "MergedPR list"
  ga_reviewsGiven :: "CodeReview list"
  ga_reviewsReceived :: "CodeReview list"
  ga_issues :: "Issue list"
  ga_repositories :: "RepositoryContribution list"
  activitySpan :: ActivitySpan

record GitHubAccount =
  username :: string
  createdAt :: Date
  publicRepos :: jsnum
  followers :: jsnum
  following :: jsnum
  bio :: "string option"
  location :: "string option"
  company :: "string option"
  website :: "string option"
  email :: "string option"
  isVerified :: bool

record ContributionPattern =
  totalPRs :: jsnum
  cp_mergedPRs :: jsnum
  openPRs :: jsnum
  closedPRs :: jsnum
  cp_selfMergedPRs :: jsnum
  forkPRs :: jsnum
  originalRepoPRs :: jsnum
  forkOnlyRepos :: "string list"
  originalRepoContributions :: jsnum
  firstContributionDate :: "Date option"
  lastContributionDate :: "Date option"
  contributionDays :: jsnum
  contributionMonths :: jsnum
  averagePRsPerDay :: jsnum
  maxPRsInSingleDay :: jsnum
  uniqueRepositories :: jsnum
  repositoriesWithMultiplePRs :: jsnum
  repositoriesWithMaintainerInteraction :: jsnum
  cp_reviewsGiven :: jsnum
  cp_reviewsReceived :: jsnum
  maintainerReviews :: jsnum
  issuesOpened :: jsnum
  issuesClosed :: jsnum
  issuesWithPRs :: jsnum
  commitMessagePatterns :: "(string \<times> jsnum) list"
  commitTimePatterns :: "jsnum list"
  identicalCommitMessages :: jsnum
  uniqueCollaborators :: jsnum
  maintainerInteractions :: jsnum
  crossRepositoryCollaborations :: jsnum

datatype ChangeType = Added | Modified | Deleted

record FileChangeAnalysis =
  filePath :: string
  fileExtension :: string
  changeType :: ChangeType
  linesAdded :: jsnum
  linesDeleted :: jsnum
  directory :: string

record PRAnalysis =
  pra_id :: string
  pra_repository :: string
  pra_title :: string
  pra_body :: "string option"
  pra_mergedAt :: Date
  pra_filesChanged :: "FileChangeAnalysis list"
  pra_languages :: "string list"
  pra_directories :: "string list"
  isInfrastructureChange :: bool
  isAPIChange :: bool
  isUIChange :: bool
  isDatabaseChange :: bool
  isConfigChange :: bool
  isTestChange :: bool
  isDocumentationChange :: bool

record IssueAnalysis =
  isa_id :: string
  isa_repository :: string
  isa_title :: string
  isa_body :: "string option"
  isa_labels :: "string list"
  isBug :: bool
  isFeature :: bool
  isInfrastructure :: bool
  isSecurity :: bool

record RepositoryAnalysis =
  ra_repository :: string
  ra_isFork :: bool
  primaryLanguage :: string
  ra_languages :: "(string \<times> jsnum) list"
  topics :: "string list"
  description :: "string option"
  stars :: jsnum
  isArchived :: bool

record ReviewRecord =
  rr_repository :: string
  rr_prId :: string
  reviewedFiles :: "string list"
  rr_languages :: "string list"

record EngineerActivity =
  prs :: "PRAnalysis list"
  issues :: "IssueAnalysis list"
  repositories :: "RepositoryAnalysis list"
  codeReviews :: "ReviewRecord list"

subsection \<open>Score results\<close>

text \<open>The records of \<^verbatim>\<open>types/scores.ts\<close>. Every component is a score with its breakdown.\<close>

record 'b Scored =
  score :: jsnum
  breakdown :: 'b

record ComponentBreakdown =
  mergedPRCount :: jsnum
  reviewEngagement :: jsnum
  acceptanceRate :: jsnum
  repoDiversity :: jsnum
  cb_maintainerTrust :: jsnum

record CollaborationBreakdown =
  crossRepoContributions :: jsnum
  cob_reviewReciprocity :: jsnum
  issueEngagement :: jsnum
  teamParticipation :: jsnum

record LongevityBreakdown =
  lb_activitySpan :: jsnum
  consistency :: jsnum
  temporalDistribution :: jsnum

record QualityBreakdown =
  reviewDepth :: jsnum
  qb_maintainerTrust :: jsnum
  contributionComplexity :: jsnum
  antiSpamScore :: jsnum

record ImpactComponents =
  prImpact :: "ComponentBreakdown Scored"
  collaboration :: "CollaborationBreakdown Scored"
  longevity :: "LongevityBreakdown Scored"
  quality :: "QualityBreakdown Scored"

record ImpactSignals =
  totalMergedPRs :: jsnum
  selfMergedPRs :: jsnum
  spamPRs :: jsnum
  activeRepositories :: jsnum
  activitySpanMonths :: jsnum

record TopRepo =
  repo :: string
  prCount :: nat
  tr_score :: jsnum

record RecentEvent =
  re_date :: Date
  event :: string
  re_impact :: jsnum

record Penalty =
  reason :: string
  pen_count :: jsnum
  pen_impact :: jsnum

record Explainability =
  topContributingRepos :: "TopRepo list"
  recentActivity :: "RecentEvent list"
  penalties :: "Penalty list"

record ImpactScoreResult =
  im_totalScore :: jsnum
  im_components :: ImpactComponents
  im_signals :: ImpactSignals
  explainability :: Explainability

record SpamDetection =
  excessiveDailyPRs :: bool
  excessiveHourlyActivity :: bool
  sd_identicalCommitMessages :: bool
  automatedPatterns :: bool
  suspiciousTimePatterns :: bool
  trivialPRs :: jsnum
  whitespaceOnlyPRs :: jsnum
  singleCharacterPRs :: jsnum
  forkFarming :: bool
  selfMergeFarming :: bool
  repositoryFarming :: bool

record TrustSignals =
  accountAge :: jsnum
  accountMaturity :: jsnum
  contributionSpan :: jsnum
  repositoryDiversity :: jsnum
  maintainerTrust :: jsnum
  collaborationDepth :: jsnum
  forkContributionRatio :: jsnum
  originalRepoContributionRatio :: jsnum

record AccountBreakdown =
  ab_accountAge :: jsnum
  ab_accountMaturity :: jsnum
  profileCompleteness :: jsnum

record ContributionBreakdown =
  ctb_contributionSpan :: jsnum
  ctb_repositoryDiversity :: jsnum
  ctb_maintainerTrust :: jsnum
  temporalConsistency :: jsnum

record CollaborationSignalsBreakdown =
  csb_uniqueCollaborators :: jsnum
  csb_maintainerInteractions :: jsnum
  crossRepoCollaborations :: jsnum
  csb_reviewReciprocity :: jsnum

record AntiGamingBreakdown =
  agb_spamDetection :: jsnum
  forkFarmingPenalty :: jsnum
  patternAnomalies :: jsnum
  behavioralRedFlags :: jsnum

record TrustComponents =
  accountAuthenticity :: "AccountBreakdown Scored"
  contributionAuthenticity :: "ContributionBreakdown Scored"
  collaborationSignals :: "CollaborationSignalsBreakdown Scored"
  antiGamingScore :: "AntiGamingBreakdown Scored"

record TrustScoreResult =
  tr_totalScore :: jsnum
  isAuthentic :: bool
  confidence :: jsnum
  tr_components :: TrustComponents
  tr_signals :: TrustSignals
  spamDetection :: SpamDetection
  redFlags :: "string list"
  greenFlags :: "string list"

datatype CompatibilityLevel = CL_high | CL_medium | CL_low | CL_poor

record CompatibilitySignals =
  technologyStackMatch :: jsnum
  domainContributionDepth :: jsnum
  architecturePatternMatch :: jsnum
  fileTypeAlignment :: jsnum
  activityTypeMatch :: jsnum
  repositoryTypeMatch :: jsnum
  reviewDomainExpertise :: jsnum

record NegativeSignals =
  technologyMismatch :: jsnum
  domainContradiction :: jsnum
  insufficientDepth :: jsnum
  architectureMismatch :: jsnum
  technologyOverweight :: jsnum

record Evidence =
  ev_type :: string
  ev_description :: string
  ev_score :: jsnum

record Explanation =
  ex_role :: string
  ex_strengths :: "string list"
  ex_weaknesses :: "string list"
  evidence :: "Evidence list"

record TechnologyStackBreakdown =
  matchedTechnologies :: "string list"
  mismatchedTechnologies :: "string list"
  tsb_score :: jsnum

record ContributionDepthBreakdown =
  cdb_relevantPRs :: nat
  cdb_totalPRs :: nat
  cdb_score :: jsnum

record ArchitecturePatternsBreakdown =
  detectedPatterns :: "string list"
  apb_score :: jsnum

record CompatibilityBreakdown =
  technologyStack :: TechnologyStackBreakdown
  contributionDepth :: ContributionDepthBreakdown
  architecturePatterns :: ArchitecturePatternsBreakdown

record CompatibilityScoreResult =
  co_totalScore :: jsnum
  compatibilityLevel :: CompatibilityLevel
  co_signals :: CompatibilitySignals
  negativeSignals :: NegativeSignals
  explanation :: Explanation
  co_breakdown :: CompatibilityBreakdown


subsection \<open>Recruiter match records\<close>

record MatchWeights =
  w_trust :: jsnum
  w_compatibility :: jsnum
  w_impact :: jsnum

record MatchThresholds =
  th_trust :: jsnum
  th_compatibility :: jsnum
  th_impact :: jsnum

record MatchBoostFactors =
  highTrustBoost :: jsnum
  highCompatibilityBoost :: jsnum
  highImpactBoost :: jsnum

record MatchConfig =
  weights :: MatchWeights
  minimumThresholds :: MatchThresholds
  boostFactors :: MatchBoostFactors

text \<open>
  \<^verbatim>\<open>RecruiterMatchScoreConfig\<close>: the optional override. A field that is absent is \<open>None\<close>.
\<close>

record MatchWeightsOverride =
  wo_trust :: "jsnum option"
  wo_compatibility :: "jsnum option"
  wo_impact :: "jsnum option"

record MatchThresholdsOverride =
  tho_trust :: "jsnum option"
  tho_compatibility :: "jsnum option"
  tho_impact :: "jsnum option"

record MatchBoostFactorsOverride =
  bo_highTrustBoost :: "jsnum option"
  bo_highCompatibilityBoost :: "jsnum option"
  bo_highImpactBoost :: "jsnum option"

record RecruiterMatchScoreConfig =
  cfg_weights :: "MatchWeightsOverride option"
  cfg_minimumThresholds :: "MatchThresholdsOverride option"
  cfg_boostFactors :: "MatchBoostFactorsOverride option"

record Boosts =
  b_trust :: jsnum
  b_compatibility :: jsnum
  b_impact :: jsnum

record WeightedScore =
  total :: jsnum
  trustComponent :: jsnum
  compatibilityComponent :: jsnum
  impactComponent :: jsnum
  boosts :: Boosts

datatype MatchLevel = Lvl_excellent | Lvl_strong | Lvl_good | Lvl_fair | Lvl_poor

datatype Recommendation =
  Rec_strongly_recommend | Rec_recommend | Rec_consider | Rec_not_recommended

record RecruiterView =
  matchScore :: jsnum
  matchLevel :: MatchLevel
  recommendation :: Recommendation
  rv_trustScore :: jsnum
  fitScore :: jsnum
  rv_impactScore :: jsnum
  rv_strengths :: "string list"
  rv_concerns :: "string list"
  rv_isAuthentic :: bool
  isGoodFit :: bool
  hasImpact :: bool
  rv_redFlags :: "string list"
  summary :: string

record EngineerTrustComponents =
  etc_accountAuthenticity :: jsnum
  etc_contributionAuthenticity :: jsnum
  etc_collaborationSignals :: jsnum
  etc_antiGamingScore :: jsnum

record EngineerTrust =
  et_total :: jsnum
  et_isAuthentic :: bool
  et_confidence :: jsnum
  et_components :: EngineerTrustComponents
  et_greenFlags :: "string list"
  et_redFlags :: "string list"

record EngineerCompatibility =
  ec_total :: jsnum
  ec_compatibilityLevel :: CompatibilityLevel
  ec_signals :: CompatibilitySignals
  ec_strengths :: "string list"
  ec_weaknesses :: "string list"

record EngineerImpactComponents =
  eic_prImpact :: jsnum
  eic_collaboration :: jsnum
  eic_longevity :: jsnum
  eic_quality :: jsnum

record EngineerImpactSignals =
  eis_totalMergedPRs :: jsnum
  eis_activeRepositories :: jsnum
  eis_activitySpanMonths :: jsnum

record EngineerImpact =
  ei_total :: jsnum
  ei_components :: EngineerImpactComponents
  ei_signals :: EngineerImpactSignals

record EngineerView =
  ev_trustScore :: EngineerTrust
  ev_compatibilityScore :: EngineerCompatibility
  ev_impactScore :: EngineerImpact
  improvementSuggestions :: "string list"

record CalculationDetails =
  cd_weights :: MatchWeights
  cd_thresholds :: MatchThresholds
  cd_boosts :: Boosts

record RecruiterMatchScoreResult =
  totalMatchScore :: jsnum
  rm_trustComponent :: jsnum
  rm_compatibilityComponent :: jsnum
  rm_impactComponent :: jsnum
  recruiterView :: RecruiterView
  engineerView :: EngineerView
  calculationDetails :: CalculationDetails

section \<open>Recruiter match calculator (\<^verbatim>\<open>scores/recruiterMatch.ts\<close>)\<close>

definition DEFAULT_MATCH_CONFIG :: MatchConfig where
  "DEFAULT_MATCH_CONFIG =
     \<lparr> weights = \<lparr> w_trust = Fin 0.4, w_compatibility = Fin 0.4, w_impact = Fin 0.2 \<rparr>,
       minimumThresholds = \<lparr> th_trust = Fin 50, th_compatibility = Fin 30, th_impact = Fin 20 \<rparr>,
       boostFactors = \<lparr> highTrustBoost = Fin 1.1, highCompatibilityBoost = Fin 1.15,
                        highImpactBoost = Fin 1.05 \<rparr> \<rparr>"

text \<open>\<^verbatim>\<open>{ ...defaults, ...override }\<close> on one field: the override wins when it is present.\<close>

definition spread :: "'a \<Rightarrow> 'a option \<Rightarrow> 'a" where
  "spread d ov = (case ov of None \<Rightarrow> d | Some v \<Rightarrow> v)"

definition optField :: "('r \<Rightarrow> 'a option) \<Rightarrow> 'r option \<Rightarrow> 'a option" where
  "optField f ov = (case ov of None \<Rightarrow> None | Some r \<Rightarrow> f r)"

definition matchFullConfig :: "RecruiterMatchScoreConfig option \<Rightarrow> MatchConfig" where
  "matchFullConfig config =
     (let dw = weights DEFAULT_MATCH_CONFIG;
          dt = minimumThresholds DEFAULT_MATCH_CONFIG;
          db = boostFactors DEFAULT_MATCH_CONFIG;
          cw = optField cfg_weights config;
          ct = optField cfg_minimumThresholds config;
          cb = optField cfg_boostFactors config
      in \<lparr> weights =
             \<lparr> w_trust = spread (w_trust dw) (optField wo_trust cw),
               w_compatibility = spread (w_compatibility dw) (optField wo_compatibility cw),
               w_impact = spread (w_impact dw) (optField wo_impact cw) \<rparr>,
           minimumThresholds =
             \<lparr> th_trust = spread (th_trust dt) (optField tho_trust ct),
               th_compatibility = spread (th_compatibility dt) (optField tho_compatibility ct),
               th_impact = spread (th_impact dt) (optField tho_impact ct) \<rparr>,
           boostFactors =
             \<lparr> highTrustBoost = spread (highTrustBoost db) (optField bo_highTrustBoost cb),
               highCompatibilityBoost =
                 spread (highCompatibilityBoost db) (optField bo_highCompatibilityBoost cb),
               highImpactBoost = spread (highImpactBoost db) (optField bo_highImpactBoost cb) \<rparr> \<rparr>)"

definition gatedScore :: WeightedScore where
  "gatedScore =
     \<lparr> total = Fin 0, trustComponent = Fin 0, compatibilityComponent = Fin 0,
       impactComponent = Fin 0,
       boosts = \<lparr> b_trust = Fin 1, b_compatibility = Fin 1, b_impact = Fin 1 \<rparr> \<rparr>"

definition calculateWeightedScore ::
  "jsnum \<Rightarrow> jsnum \<Rightarrow> jsnum \<Rightarrow> MatchConfig \<Rightarrow> WeightedScore" where
  "calculateWeightedScore trustScore compatibilityScore impactScore config =
     (if trustScore < th_trust (minimumThresholds config) then gatedScore
      else if compatibilityScore < th_compatibility (minimumThresholds config) then gatedScore
      else if impactScore < th_impact (minimumThresholds config) then gatedScore
      else
        let trustBoost = (if Fin 80 < trustScore then highTrustBoost (boostFactors config)
                          else Fin 1);
            compatibilityBoost =
              (if Fin 85 < compatibilityScore then highCompatibilityBoost (boostFactors config)
               else Fin 1);
            impactBoost = (if Fin 90 < impactScore then highImpactBoost (boostFactors config)
                           else Fin 1);
            trustC = trustScore * w_trust (weights config) * trustBoost;
            compatibilityC =
              compatibilityScore * w_compatibility (weights config) * compatibilityBoost;
            impactC = impactScore * w_impact (weights config) * impactBoost
        in \<lparr> total = jmin (trustC + compatibilityC + impactC) (Fin 100),
             trustComponent = trustScore * w_trust (weights config),
             compatibilityComponent = compatibilityScore * w_compatibility (weights config),
             impactComponent = impactScore * w_impact (weights config),
             boosts = \<lparr> b_trust = trustBoost, b_compatibility = compatibilityBoost,
                        b_impact = impactBoost \<rparr> \<rparr>)"

definition generateSummary ::
  "TrustScoreResult \<Rightarrow> CompatibilityScoreResult \<Rightarrow> ImpactScoreResult \<Rightarrow> jsnum \<Rightarrow> string" where
  "generateSummary trustResult compatibilityResult impactResult score' =
     (let parts =
            [if Fin 85 \<le> score' then ''Excellent match''
             else if Fin 70 \<le> score' then ''Strong match''
             else if Fin 50 \<le> score' then ''Good match''
             else ''Fair match'']
            @ [''with '' @ ex_role (explanation compatibilityResult) @ '' role'']
            @ (if isAuthentic trustResult then [''and authentic profile''] else [])
            @ (if compatibilityLevel compatibilityResult = CL_high
               then [''showing strong role alignment''] else [])
            @ (if Fin 80 < im_totalScore impactResult
               then [''with high-impact contributions''] else [])
      in join '', '' parts @ ''.'')"

definition levelOf :: "jsnum \<Rightarrow> MatchLevel \<times> Recommendation" where
  "levelOf score' =
     (if Fin 85 \<le> score' then (Lvl_excellent, Rec_strongly_recommend)
      else if Fin 70 \<le> score' then (Lvl_strong, Rec_recommend)
      else if Fin 50 \<le> score' then (Lvl_good, Rec_consider)
      else if Fin 30 \<le> score' then (Lvl_fair, Rec_consider)
      else (Lvl_poor, Rec_not_recommended))"

definition generateRecruiterView ::
  "TrustScoreResult \<Rightarrow> CompatibilityScoreResult \<Rightarrow> ImpactScoreResult \<Rightarrow> jsnum
    \<Rightarrow> jsnum \<times> jsnum \<times> jsnum \<Rightarrow> RecruiterView" where
  "generateRecruiterView trustResult compatibilityResult impactResult score' components =
     (let strengths =
            (if Fin 75 < tr_totalScore trustResult
             then [''Highly authentic profile with verified contributions''] else [])
            @ (if Fin 75 < co_totalScore compatibilityResult
               then [''Strong '' @ ex_role (explanation compatibilityResult) @ '' role fit'']
               else [])
            @ (if Fin 80 < im_totalScore impactResult
               then [''High-impact contributions with proven track record''] else [])
            @ (if isAuthentic trustResult \<and> compatibilityLevel compatibilityResult = CL_high
               then [''Authentic engineer with excellent role alignment''] else []);
          concerns =
            (if tr_totalScore trustResult < Fin 60
             then [''Trust score below ideal threshold''] else [])
            @ (if co_totalScore compatibilityResult < Fin 50
               then [''Limited role-specific experience''] else [])
            @ (if im_totalScore impactResult < Fin 50
               then [''Lower contribution impact''] else [])
            @ (if 0 < length (redFlags trustResult)
               then [show_nat (length (redFlags trustResult)) @ '' trust-related concerns'']
               else []);
          flags =
            (if isAuthentic trustResult then [] else [''Profile authenticity concerns''])
            @ (if forkFarming (spamDetection trustResult)
               then [''Fork-only contributions detected''] else [])
            @ (if compatibilityLevel compatibilityResult = CL_poor
               then [''Poor role compatibility''] else [])
      in \<lparr> matchScore = score',
           matchLevel = fst (levelOf score'),
           recommendation = snd (levelOf score'),
           rv_trustScore = tr_totalScore trustResult,
           fitScore = co_totalScore compatibilityResult,
           rv_impactScore = im_totalScore impactResult,
           rv_strengths = strengths,
           rv_concerns = concerns,
           rv_isAuthentic = isAuthentic trustResult,
           isGoodFit = (if compatibilityLevel compatibilityResult = CL_poor then False else True),
           hasImpact = (Fin 50 < im_totalScore impactResult),
           rv_redFlags = flags,
           summary = generateSummary trustResult compatibilityResult impactResult score' \<rparr>)"

definition generateEngineerView ::
  "TrustScoreResult \<Rightarrow> CompatibilityScoreResult \<Rightarrow> ImpactScoreResult \<Rightarrow> EngineerView" where
  "generateEngineerView trustResult compatibilityResult impactResult =
     (let suggestions =
            (if tr_totalScore trustResult < Fin 70
             then (if ''Insufficient repository diversity'' \<in> set (redFlags trustResult)
                   then [''Contribute to more diverse repositories to increase trust score'']
                   else [])
                  @ (if forkFarming (spamDetection trustResult)
                     then [''Contribute to original repositories, not just forks''] else [])
             else [])
            @ (if co_totalScore compatibilityResult < Fin 60
               then [''Increase '' @ ex_role (explanation compatibilityResult)
                       @ ''-specific contributions'']
                    @ (if Fin 50 < technologyMismatch (negativeSignals compatibilityResult)
                       then [''Focus on role-relevant technologies and reduce unrelated contributions'']
                       else [])
               else [])
            @ (if im_totalScore impactResult < Fin 60
               then [''Increase merged PR count and collaboration with maintainers'']
                    @ (if activeRepositories (im_signals impactResult) < Fin 3
                       then [''Contribute to more repositories to demonstrate breadth'']
                       else [])
               else [])
      in \<lparr> ev_trustScore =
             \<lparr> et_total = tr_totalScore trustResult,
               et_isAuthentic = isAuthentic trustResult,
               et_confidence = confidence trustResult,
               et_components =
                 \<lparr> etc_accountAuthenticity = score (accountAuthenticity (tr_components trustResult)),
                   etc_contributionAuthenticity =
                     score (contributionAuthenticity (tr_components trustResult)),
                   etc_collaborationSignals =
                     score (collaborationSignals (tr_components trustResult)),
                   etc_antiGamingScore = score (antiGamingScore (tr_components trustResult)) \<rparr>,
               et_greenFlags = greenFlags trustResult,
               et_redFlags = redFlags trustResult \<rparr>,
           ev_compatibilityScore =
             \<lparr> ec_total = co_totalScore compatibilityResult,
               ec_compatibilityLevel = compatibilityLevel compatibilityResult,
               ec_signals =
                 \<lparr> technologyStackMatch = technologyStackMatch (co_signals compatibilityResult),
                   domainContributionDepth =
                     domainContributionDepth (co_signals compatibilityResult),
                   architecturePatternMatch =
                     architecturePatternMatch (co_signals compatibilityResult),
                   fileTypeAlignment = fileTypeAlignment (co_signals compatibilityResult),
                   activityTypeMatch = activityTypeMatch (co_signals compatibilityResult),
                   repositoryTypeMatch = repositoryTypeMatch (co_signals compatibilityResult),
                   reviewDomainExpertise =
                     reviewDomainExpertise (co_signals compatibilityResult) \<rparr>,
               ec_strengths = ex_strengths (explanation compatibilityResult),
               ec_weaknesses = ex_weaknesses (explanation compatibilityResult) \<rparr>,
           ev_impactScore =
             \<lparr> ei_total = im_totalScore impactResult,
               ei_components =
                 \<lparr> eic_prImpact = score (prImpact (im_components impactResult)),
                   eic_collaboration = score (collaboration (im_components impactResult)),
                   eic_longevity = score (longevity (im_components impactResult)),
                   eic_quality = score (quality (im_components impactResult)) \<rparr>,
               ei_signals =
                 \<lparr> eis_totalMergedPRs = totalMergedPRs (im_signals impactResult),
                   eis_activeRepositories = activeRepositories (im_signals impactResult),
                   eis_activitySpanMonths = activitySpanMonths (im_signals impactResult) \<rparr> \<rparr>,
           improvementSuggestions = suggestions \<rparr>)"

definition calculateRecruiterMatchScore ::
  "TrustScoreResult \<Rightarrow> CompatibilityScoreResult \<Rightarrow> ImpactScoreResult
    \<Rightarrow> RecruiterMatchScoreConfig option \<Rightarrow> RecruiterMatchScoreResult" where
  "calculateRecruiterMatchScore trustResult compatibilityResult impactResult config =
     (let fullConfig = matchFullConfig config;
          scoreCalculation =
            calculateWeightedScore (tr_totalScore trustResult)
              (co_totalScore compatibilityResult) (im_totalScore impactResult) fullConfig
      in \<lparr> totalMatchScore = total scoreCalculation,
           rm_trustComponent = trustComponent scoreCalculation,
           rm_compatibilityComponent = compatibilityComponent scoreCalculation,
           rm_impactComponent = impactComponent scoreCalculation,
           recruiterView =
             generateRecruiterView trustResult compatibilityResult impactResult
               (total scoreCalculation)
               (trustComponent scoreCalculation, compatibilityComponent scoreCalculation,
                impactComponent scoreCalculation),
           engineerView = generateEngineerView trustResult compatibilityResult impactResult,
           calculationDetails =
             \<lparr> cd_weights = weights fullConfig,
               cd_thresholds = minimumThresholds fullConfig,
               cd_boosts = boosts scoreCalculation \<rparr> \<rparr>)"

subsection \<open>The engineer view as the object that is serialised\<close>

text \<open>
  The object literal that \<^verbatim>\<open>generateEngineerView\<close> returns, as a tree of keys and values
  (what \<^verbatim>\<open>JSON.stringify\<close> walks). \<open>json_keys\<close> collects every key at every depth.
\<close>

datatype json = JBool bool | JNum jsnum | JStr string | JArr "json list"
  | JObj "(string \<times> json) list"

fun json_keys :: "json \<Rightarrow> string list" where
  "json_keys (JObj kvs) = concat (map (\<lambda>kv. fst kv # json_keys (snd kv)) kvs)"
| "json_keys (JArr vs) = concat (map json_keys vs)"
| "json_keys (JBool b) = []"
| "json_keys (JNum n) = []"
| "json_keys (JStr s) = []"

definition levelName :: "CompatibilityLevel \<Rightarrow> string" where
  "levelName l = (case l of CL_high \<Rightarrow> ''high'' | CL_medium \<Rightarrow> ''medium''
                  | CL_low \<Rightarrow> ''low'' | CL_poor \<Rightarrow> ''poor'')"

definition engineerViewObject :: "EngineerView \<Rightarrow> json" where
  "engineerViewObject v =
     JObj
      [(''trustScore'', JObj
          [(''total'', JNum (et_total (ev_trustScore v))),
           (''isAuthentic'', JBool (et_isAuthentic (ev_trustScore v))),
           (''confidence'', JNum (et_confidence (ev_trustScore v))),
           (''components'', JObj
              [(''accountAuthenticity'',
                  JNum (etc_accountAuthenticity (et_components (ev_trustScore v)))),
               (''contributionAuthenticity'',
                  JNum (etc_contributionAuthenticity (et_components (ev_trustScore v)))),
               (''collaborationSignals'',
                  JNum (etc_collaborationSignals (et_components (ev_trustScore v)))),
               (''antiGamingScore'',
                  JNum (etc_antiGamingScore (et_components (ev_trustScore v))))]),
           (''greenFlags'', JArr (map JStr (et_greenFlags (ev_trustScore v)))),
           (''redFlags'', JArr (map JStr (et_redFlags (ev_trustScore v))))]),
       (''compatibilityScore'', JObj
          [(''total'', JNum (ec_total (ev_compatibilityScore v))),
           (''compatibilityLevel'',
              JStr (levelName (ec_compatibilityLevel (ev_compatibilityScore v)))),
           (''signals'', JObj
              [(''technologyStackMatch'',
                  JNum (technologyStackMatch (ec_signals (ev_compatibilityScore v)))),
               (''domainContributionDepth'',
                  JNum (domainContributionDepth (ec_signals (ev_compatibilityScore v)))),
               (''architecturePatternMatch'',
                  JNum (architecturePatternMatch (ec_signals (ev_compatibilityScore v)))),
               (''fileTypeAlignment'',
                  JNum (fileTypeAlignment (ec_signals (ev_compatibilityScore v)))),
               (''activityTypeMatch'',
                  JNum (activityTypeMatch (ec_signals (ev_compatibilityScore v)))),
               (''repositoryTypeMatch'',
                  JNum (repositoryTypeMatch (ec_signals (ev_compatibilityScore v)))),
               (''reviewDomainExpertise'',
                  JNum (reviewDomainExpertise (ec_signals (ev_compatibilityScore v))))]),
           (''strengths'', JArr (map JStr (ec_strengths (ev_compatibilityScore v)))),
           (''weaknesses'', JArr (map JStr (ec_weaknesses (ev_compatibilityScore v))))]),
       (''impactScore'', JObj
          [(''total'', JNum (ei_total (ev_impactScore v))),
           (''components'', JObj
              [(''prImpact'', JNum (eic_prImpact (ei_components (ev_impactScore v)))),
               (''collaboration'', JNum (eic_collaboration (ei_components (ev_impactScore v)))),
               (''longevity'', JNum (eic_longevity (ei_components (ev_impactScore v)))),
               (''quality'', JNum (eic_quality (ei_components (ev_impactScore v))))]),
           (''signals'', JObj
              [(''totalMergedPRs'', JNum (eis_totalMergedPRs (ei_signals (ev_impactScore v)))),
               (''activeRepositories'',
                  JNum (eis_activeRepositories (ei_signals (ev_impactScore v)))),
               (''activitySpanMonths'',
                  JNum (eis_activitySpanMonths (ei_signals (ev_impactScore v))))])]),
       (''improvementSuggestions'', JArr (map JStr (improvementSuggestions v)))]"

section \<open>Trust calculator (\<^verbatim>\<open>scores/trust.ts\<close>)\<close>

text \<open>
  The calculators read the wall clock with \<^verbatim>\<open>new Date()\<close>. A \<open>Clock\<close> gives the instant
  returned by the first, second, ... evaluation of \<^verbatim>\<open>new Date()\<close> during one call.
\<close>

type_synonym Clock = "nat \<Rightarrow> Date"

definition getTime :: "Date \<Rightarrow> jsnum" where
  "getTime d = Fin (of_int d)"

definition msPerDay :: jsnum where
  "msPerDay = Fin (1000 * 60 * 60 * 24)"

record TrustWeights =
  tw_accountAuthenticity :: "jsnum option"
  tw_contributionAuthenticity :: "jsnum option"
  tw_collaborationSignals :: "jsnum option"
  tw_antiGamingScore :: "jsnum option"

record TrustConfig =
  maxPRsPerDay :: jsnum
  maxPRsPerHour :: jsnum
  minAccountAgeDays :: jsnum
  minUniqueRepos :: jsnum
  forkOnlyPenalty :: jsnum
  identicalMessageThreshold :: jsnum
  trustWeights :: TrustWeights

text \<open>\<^verbatim>\<open>TrustScoreConfig\<close>: the optional override; an absent field is \<open>None\<close>.\<close>

record TrustScoreConfig =
  tc_maxPRsPerDay :: "jsnum option"
  tc_maxPRsPerHour :: "jsnum option"
  tc_minAccountAgeDays :: "jsnum option"
  tc_minUniqueRepos :: "jsnum option"
  tc_forkOnlyPenalty :: "jsnum option"
  tc_identicalMessageThreshold :: "jsnum option"
  tc_weights :: "TrustWeights option"

definition DEFAULT_TRUST_CONFIG :: TrustConfig where
  "DEFAULT_TRUST_CONFIG =
     \<lparr> maxPRsPerDay = Fin 20, maxPRsPerHour = Fin 5, minAccountAgeDays = Fin 30,
       minUniqueRepos = Fin 2, forkOnlyPenalty = Fin 0.5, identicalMessageThreshold = Fin 5,
       trustWeights =
         \<lparr> tw_accountAuthenticity = Some (Fin 0.25),
           tw_contributionAuthenticity = Some (Fin 0.35),
           tw_collaborationSignals = Some (Fin 0.25),
           tw_antiGamingScore = Some (Fin 0.15) \<rparr> \<rparr>"

text \<open>\<^verbatim>\<open>{ ...a, ...b }\<close> on an optional field: the later object wins where it has the field.\<close>

definition spreadOpt :: "'a option \<Rightarrow> 'a option \<Rightarrow> 'a option" where
  "spreadOpt d ov = (case ov of None \<Rightarrow> d | Some v \<Rightarrow> Some v)"

text \<open>\<^verbatim>\<open>x ?? d\<close>\<close>

definition nullish :: "'a option \<Rightarrow> 'a \<Rightarrow> 'a" where
  "nullish x d = (case x of None \<Rightarrow> d | Some v \<Rightarrow> v)"

definition trustFullConfig :: "TrustScoreConfig option \<Rightarrow> TrustConfig" where
  "trustFullConfig config =
     (let d = DEFAULT_TRUST_CONFIG;
          cw = optField tc_weights config
      in \<lparr> maxPRsPerDay = spread (maxPRsPerDay d) (optField tc_maxPRsPerDay config),
           maxPRsPerHour = spread (maxPRsPerHour d) (optField tc_maxPRsPerHour config),
           minAccountAgeDays = spread (minAccountAgeDays d) (optField tc_minAccountAgeDays config),
           minUniqueRepos = spread (minUniqueRepos d) (optField tc_minUniqueRepos config),
           forkOnlyPenalty = spread (forkOnlyPenalty d) (optField tc_forkOnlyPenalty config),
           identicalMessageThreshold =
             spread (identicalMessageThreshold d) (optField tc_identicalMessageThreshold config),
           trustWeights =
             \<lparr> tw_accountAuthenticity =
                 spreadOpt (tw_accountAuthenticity (trustWeights d))
                   (optField tw_accountAuthenticity cw),
               tw_contributionAuthenticity =
                 spreadOpt (tw_contributionAuthenticity (trustWeights d))
                   (optField tw_contributionAuthenticity cw),
               tw_collaborationSignals =
                 spreadOpt (tw_collaborationSignals (trustWeights d))
                   (optField tw_collaborationSignals cw),
               tw_antiGamingScore =
                 spreadOpt (tw_antiGamingScore (trustWeights d))
                   (optField tw_antiGamingScore cw) \<rparr> \<rparr>)"

definition detectSpamPatterns :: "ContributionPattern \<Rightarrow> TrustConfig \<Rightarrow> SpamDetection" where
  "detectSpamPatterns pattern config =
     \<lparr> excessiveDailyPRs = (maxPRsInSingleDay pattern > maxPRsPerDay config),
       excessiveHourlyActivity = False,
       sd_identicalCommitMessages =
         (identicalCommitMessages pattern \<ge> identicalMessageThreshold config),
       automatedPatterns = False,
       suspiciousTimePatterns = False,
       trivialPRs = Fin 0,
       whitespaceOnlyPRs = Fin 0,
       singleCharacterPRs = Fin 0,
       forkFarming =
         (length (forkOnlyRepos pattern) > 0 \<and> jeq (originalRepoContributions pattern) (Fin 0)),
       selfMergeFarming = (cp_selfMergedPRs pattern / totalPRs pattern > Fin 0.5),
       repositoryFarming =
         (uniqueRepositories pattern > Fin 50 \<and> repositoriesWithMultiplePRs pattern < Fin 5) \<rparr>"

text \<open>A string field counts (\<^verbatim>\<open>if (account.bio)\<close>) when it is present and not empty.\<close>

definition truthy_str :: "string option \<Rightarrow> bool" where
  "truthy_str s = (case s of None \<Rightarrow> False | Some v \<Rightarrow> \<not> v = [])"

definition spanDays :: "ContributionPattern \<Rightarrow> jsnum" where
  "spanDays pattern =
     (case firstContributionDate pattern of
        None \<Rightarrow> Fin 0
      | Some f \<Rightarrow>
          (case lastContributionDate pattern of
             None \<Rightarrow> Fin 0
           | Some l \<Rightarrow> (getTime l - getTime f) / msPerDay))"

definition clamp100 :: "jsnum \<Rightarrow> jsnum" where
  "clamp100 x = jmin (jmax x (Fin 0)) (Fin 100)"

definition calculateAccountAuthenticity ::
  "Date \<Rightarrow> GitHubAccount \<Rightarrow> ContributionPattern \<Rightarrow> TrustConfig \<Rightarrow> AccountBreakdown Scored" where
  "calculateAccountAuthenticity now account pattern config =
     (let accountAgeDays = (getTime now - getTime (createdAt account)) / msPerDay;
          accountAgeScore0 = jmin (accountAgeDays / Fin 365) (Fin 1) * Fin 100;
          contributionSpan = spanDays pattern;
          accountMaturity' = jmin (contributionSpan / Fin 180) (Fin 1) * Fin 100;
          p0 = Fin 0;
          p1 = (if truthy_str (bio account) then p0 + Fin 20 else p0);
          p2 = (if truthy_str (location account) then p1 + Fin 20 else p1);
          p3 = (if truthy_str (company account) then p2 + Fin 20 else p2);
          p4 = (if truthy_str (website account) then p3 + Fin 20 else p3);
          profileCompleteness' = (if truthy_str (email account) then p4 + Fin 20 else p4);
          accountAgeScore =
            (if accountAgeDays < minAccountAgeDays config then accountAgeScore0 * Fin 0.3
             else accountAgeScore0);
          score' = accountAgeScore * Fin 0.4 + accountMaturity' * Fin 0.4
                   + profileCompleteness' * Fin 0.2
      in \<lparr> score = clamp100 score',
           breakdown = \<lparr> ab_accountAge = accountAgeDays, ab_accountMaturity = accountMaturity',
                         profileCompleteness = profileCompleteness' \<rparr> \<rparr>)"

definition calculateContributionAuthenticity ::
  "ContributionPattern \<Rightarrow> TrustConfig \<Rightarrow> ContributionBreakdown Scored" where
  "calculateContributionAuthenticity pattern config =
     (if jeq (totalPRs pattern) (Fin 0)
      then \<lparr> score = Fin 0,
             breakdown = \<lparr> ctb_contributionSpan = Fin 0, ctb_repositoryDiversity = Fin 0,
                           ctb_maintainerTrust = Fin 0, temporalConsistency = Fin 0 \<rparr> \<rparr>
      else
        let contributionSpan = spanDays pattern;
            spanScore = jmin (contributionSpan / Fin 365) (Fin 1) * Fin 100;
            repoDiv = jmin (jlog10 (uniqueRepositories pattern + Fin 1) / jlog10 (Fin 20)) (Fin 1)
                      * Fin 100;
            maintainerMerges = cp_mergedPRs pattern - cp_selfMergedPRs pattern;
            mTrust = (if cp_mergedPRs pattern > Fin 0
                      then (maintainerMerges / cp_mergedPRs pattern) * Fin 100 else Fin 0);
            cons = (if contributionMonths pattern > Fin 0 \<and> contributionSpan > Fin 0
                    then jmin ((contributionMonths pattern / (contributionSpan / Fin 30)) * Fin 100)
                           (Fin 100)
                    else Fin 0);
            diversityPenalty =
              (if uniqueRepositories pattern < minUniqueRepos config then Fin 0.5 else Fin 1.0);
            score' = spanScore * Fin 0.3 + repoDiv * Fin 0.3 * diversityPenalty
                     + mTrust * Fin 0.25 + cons * Fin 0.15
        in \<lparr> score = clamp100 score',
             breakdown = \<lparr> ctb_contributionSpan = contributionSpan,
                           ctb_repositoryDiversity = repoDiv,
                           ctb_maintainerTrust = mTrust, temporalConsistency = cons \<rparr> \<rparr>)"

definition calculateCollaborationSignals ::
  "ContributionPattern \<Rightarrow> CollaborationSignalsBreakdown Scored" where
  "calculateCollaborationSignals pattern =
     (if jeq (totalPRs pattern) (Fin 0)
      then \<lparr> score = Fin 0,
             breakdown = \<lparr> csb_uniqueCollaborators = Fin 0, csb_maintainerInteractions = Fin 0,
                           crossRepoCollaborations = Fin 0, csb_reviewReciprocity = Fin 0 \<rparr> \<rparr>
      else
        let collaboratorScore =
              jmin (jlog10 (uniqueCollaborators pattern + Fin 1) / jlog10 (Fin 50)) (Fin 1)
              * Fin 100;
            maintainerInteractionRate =
              (if maintainerInteractions pattern > Fin 0
               then jmin ((maintainerInteractions pattern / cp_mergedPRs pattern) * Fin 100)
                      (Fin 100)
               else Fin 0);
            crossRepoScore =
              (if crossRepositoryCollaborations pattern > Fin 0
               then jmin ((crossRepositoryCollaborations pattern / uniqueRepositories pattern)
                          * Fin 100) (Fin 100)
               else Fin 0);
            totalReviews = cp_reviewsGiven pattern + cp_reviewsReceived pattern;
            reciprocity =
              (if totalReviews > Fin 0
               then (jmin (cp_reviewsGiven pattern) (cp_reviewsReceived pattern)
                     / jmax (cp_reviewsGiven pattern)
                         (if truthy_num (cp_reviewsReceived pattern)
                          then cp_reviewsReceived pattern else Fin 1))
                    * Fin 100
               else Fin 0);
            score' = collaboratorScore * Fin 0.3 + maintainerInteractionRate * Fin 0.3
                     + crossRepoScore * Fin 0.2 + reciprocity * Fin 0.2
        in \<lparr> score = clamp100 score',
             breakdown = \<lparr> csb_uniqueCollaborators = uniqueCollaborators pattern,
                           csb_maintainerInteractions = maintainerInteractions pattern,
                           crossRepoCollaborations = crossRepositoryCollaborations pattern,
                           csb_reviewReciprocity = reciprocity \<rparr> \<rparr>)"

definition calculateAntiGamingScore ::
  "ContributionPattern \<Rightarrow> SpamDetection \<Rightarrow> TrustConfig \<Rightarrow> AntiGamingBreakdown Scored" where
  "calculateAntiGamingScore pattern spam config =
     (let s0 = Fin 100;
          s1 = (if excessiveDailyPRs spam then s0 - Fin 30 else s0);
          s2 = (if sd_identicalCommitMessages spam then s1 - Fin 25 else s1);
          s3 = (if forkFarming spam then s2 - Fin 40 else s2);
          s4 = (if selfMergeFarming spam then s3 - Fin 30 else s3);
          s5 = (if repositoryFarming spam then s4 - Fin 20 else s4);
          spamScore = jmax s5 (Fin 0);
          forkRatio = (if totalPRs pattern > Fin 0 then forkPRs pattern / totalPRs pattern
                       else Fin 0);
          penalty =
            (if jeq forkRatio (Fin 1.0) \<and> jeq (originalRepoContributions pattern) (Fin 0)
             then Fin 100
             else if forkRatio > Fin 0.8 then Fin 70
             else if forkRatio > Fin 0.5 then Fin 40
             else Fin 0);
          a0 = Fin 100;
          a1 = (if averagePRsPerDay pattern > Fin 10 then a0 - Fin 20 else a0);
          a2 = (if maxPRsInSingleDay pattern > maxPRsPerDay config then a1 - Fin 30 else a1);
          a3 = (if identicalCommitMessages pattern > Fin 0 then a2 - Fin 15 else a2);
          anomalies = jmax a3 (Fin 0);
          selfMergeRatio =
            (if totalPRs pattern > Fin 0 then cp_selfMergedPRs pattern / totalPRs pattern
             else Fin 0);
          b0 = Fin 100;
          b1 = (if selfMergeRatio > Fin 0.7 then b0 - Fin 40 else b0);
          b2 = (if selfMergeRatio > Fin 0.5 then b1 - Fin 25 else b1);
          b3 = (if uniqueRepositories pattern > Fin 100
                   \<and> repositoriesWithMultiplePRs pattern < Fin 10
                then b2 - Fin 30 else b2);
          behavioral = jmax b3 (Fin 0);
          score' = spamScore * Fin 0.4 + (Fin 100 - penalty) * Fin 0.3 + anomalies * Fin 0.2
                   + behavioral * Fin 0.1
      in \<lparr> score = clamp100 score',
           breakdown = \<lparr> agb_spamDetection = spamScore, forkFarmingPenalty = penalty,
                         patternAnomalies = anomalies, behavioralRedFlags = behavioral \<rparr> \<rparr>)"

definition trustRedFlags ::
  "SpamDetection \<Rightarrow> jsnum \<Rightarrow> jsnum \<Rightarrow> ContributionPattern \<Rightarrow> TrustConfig \<Rightarrow> string list" where
  "trustRedFlags spam forkRatio accountAge' pattern config =
     (if forkFarming spam then [''Fork-only contributions detected''] else [])
     @ (if selfMergeFarming spam then [''High rate of self-merged PRs''] else [])
     @ (if excessiveDailyPRs spam then [''Excessive daily PR activity''] else [])
     @ (if repositoryFarming spam then [''Repository farming pattern detected''] else [])
     @ (if forkRatio > Fin 0.8 then [''High fork contribution ratio''] else [])
     @ (if accountAge' < minAccountAgeDays config then [''Account too new''] else [])
     @ (if uniqueRepositories pattern < minUniqueRepos config
        then [''Insufficient repository diversity''] else [])"

definition trustGreenFlags :: "TrustSignals \<Rightarrow> jsnum \<Rightarrow> jsnum \<Rightarrow> string list" where
  "trustGreenFlags signals contributionSpan' originalRepoRatio =
     (if maintainerTrust signals > Fin 80 then [''High maintainer trust''] else [])
     @ (if repositoryDiversity signals > Fin 70 then [''Strong repository diversity''] else [])
     @ (if collaborationDepth signals > Fin 70 then [''Active collaboration''] else [])
     @ (if contributionSpan' > Fin 365 then [''Long-term consistent contributions''] else [])
     @ (if originalRepoRatio > Fin 0.7
        then [''Primarily original repository contributions''] else [])"

definition calculateTrustScore ::
  "Clock \<Rightarrow> GitHubAccount \<Rightarrow> ContributionPattern \<Rightarrow> TrustScoreConfig option
    \<Rightarrow> TrustScoreResult" where
  "calculateTrustScore clock account pattern config =
     (let fullConfig = trustFullConfig config;
          spam = detectSpamPatterns pattern fullConfig;
          accountAuth = calculateAccountAuthenticity (clock 0) account pattern fullConfig;
          contributionAuth = calculateContributionAuthenticity pattern fullConfig;
          collab = calculateCollaborationSignals pattern;
          antiGaming = calculateAntiGamingScore pattern spam fullConfig;
          totalScore =
            score accountAuth
              * nullish (tw_accountAuthenticity (trustWeights fullConfig)) (Fin 0.25)
            + score contributionAuth
              * nullish (tw_contributionAuthenticity (trustWeights fullConfig)) (Fin 0.35)
            + score collab
              * nullish (tw_collaborationSignals (trustWeights fullConfig)) (Fin 0.25)
            + score antiGaming
              * nullish (tw_antiGamingScore (trustWeights fullConfig)) (Fin 0.15);
          contributionSpan' = spanDays pattern;
          accountAge' = (getTime (clock 1) - getTime (createdAt account)) / msPerDay;
          forkRatio = (if totalPRs pattern > Fin 0 then forkPRs pattern / totalPRs pattern
                       else Fin 0);
          originalRepoRatio =
            (if totalPRs pattern > Fin 0
             then originalRepoContributions pattern / totalPRs pattern else Fin 0);
          mTrust =
            (if cp_mergedPRs pattern > Fin 0
             then ((cp_mergedPRs pattern - cp_selfMergedPRs pattern) / cp_mergedPRs pattern)
                  * Fin 100
             else Fin 0);
          signals =
            \<lparr> accountAge = accountAge',
              accountMaturity = ab_accountMaturity (breakdown accountAuth),
              contributionSpan = contributionSpan',
              repositoryDiversity = ctb_repositoryDiversity (breakdown contributionAuth),
              maintainerTrust = mTrust,
              collaborationDepth = score collab,
              forkContributionRatio = forkRatio,
              originalRepoContributionRatio = originalRepoRatio \<rparr>;
          flags = trustRedFlags spam forkRatio accountAge' pattern fullConfig;
          c0 = Fin 100;
          c1 = (if totalPRs pattern < Fin 5 then c0 - Fin 30 else c0);
          c2 = (if contributionSpan' < Fin 30 then c1 - Fin 20 else c1);
          c3 = (if uniqueRepositories pattern < Fin 2 then c2 - Fin 25 else c2)
      in \<lparr> tr_totalScore = clamp100 totalScore,
           isAuthentic = (totalScore \<ge> Fin 60 \<and> length flags < 3 \<and> \<not> forkFarming spam),
           confidence = jmax c3 (Fin 0),
           tr_components =
             \<lparr> accountAuthenticity = accountAuth, contributionAuthenticity = contributionAuth,
               collaborationSignals = collab, antiGamingScore = antiGaming \<rparr>,
           tr_signals = signals,
           spamDetection = spam,
           redFlags = flags,
           greenFlags = trustGreenFlags signals contributionSpan' originalRepoRatio \<rparr>)"

section \<open>Impact calculator (\<^verbatim>\<open>scores/impact.ts\<close>)\<close>

record ImpactWeights =
  iw_prImpact :: "jsnum option"
  iw_collaboration :: "jsnum option"
  iw_longevity :: "jsnum option"
  iw_quality :: "jsnum option"

record ImpactConfig =
  impactWeights :: ImpactWeights
  timeDecayFactor :: jsnum
  minPRSize :: jsnum
  maxPRFrequency :: jsnum
  activityWindowMonths :: jsnum
  selfMergePenalty :: jsnum

text \<open>\<^verbatim>\<open>ImpactScoreConfig\<close>: the optional override; an absent field is \<open>None\<close>.\<close>

record ImpactScoreConfig =
  ic_weights :: "ImpactWeights option"
  ic_timeDecayFactor :: "jsnum option"
  ic_minPRSize :: "jsnum option"
  ic_maxPRFrequency :: "jsnum option"
  ic_activityWindowMonths :: "jsnum option"
  ic_selfMergePenalty :: "jsnum option"

definition DEFAULT_IMPACT_CONFIG :: ImpactConfig where
  "DEFAULT_IMPACT_CONFIG =
     \<lparr> impactWeights =
         \<lparr> iw_prImpact = Some (Fin 0.4), iw_collaboration = Some (Fin 0.3),
           iw_longevity = Some (Fin 0.2), iw_quality = Some (Fin 0.1) \<rparr>,
       timeDecayFactor = Fin 0.95, minPRSize = Fin 1, maxPRFrequency = Fin 10,
       activityWindowMonths = Fin 24, selfMergePenalty = Fin 0.0 \<rparr>"

definition impactFullConfig :: "ImpactScoreConfig option \<Rightarrow> ImpactConfig" where
  "impactFullConfig config =
     (let d = DEFAULT_IMPACT_CONFIG;
          cw = optField ic_weights config
      in \<lparr> impactWeights =
             \<lparr> iw_prImpact = spreadOpt (iw_prImpact (impactWeights d)) (optField iw_prImpact cw),
               iw_collaboration =
                 spreadOpt (iw_collaboration (impactWeights d)) (optField iw_collaboration cw),
               iw_longevity =
                 spreadOpt (iw_longevity (impactWeights d)) (optField iw_longevity cw),
               iw_quality = spreadOpt (iw_quality (impactWeights d)) (optField iw_quality cw) \<rparr>,
           timeDecayFactor = spread (timeDecayFactor d) (optField ic_timeDecayFactor config),
           minPRSize = spread (minPRSize d) (optField ic_minPRSize config),
           maxPRFrequency = spread (maxPRFrequency d) (optField ic_maxPRFrequency config),
           activityWindowMonths =
             spread (activityWindowMonths d) (optField ic_activityWindowMonths config),
           selfMergePenalty = spread (selfMergePenalty d) (optField ic_selfMergePenalty config) \<rparr>)"

text \<open>
  A JavaScript \<^verbatim>\<open>Set\<close> keeps its elements in insertion order: \<open>set_add\<close> is \<^verbatim>\<open>Set.add\<close>,
  \<open>to_set\<close> is \<^verbatim>\<open>new Set(xs)\<close>, and the size is the length of the list.
\<close>

definition set_add :: "'a list \<Rightarrow> 'a \<Rightarrow> 'a list" where
  "set_add acc x = (if x \<in> set acc then acc else acc @ [x])"

definition to_set :: "'a list \<Rightarrow> 'a list" where
  "to_set xs = foldl set_add [] xs"

text \<open>
  \<^verbatim>\<open>pr.mergedAt.toISOString().split('T')[0]\<close> is the UTC calendar date of the merge; two
  merges have the same key exactly when they fall into the same UTC day, so the key is
  the number of that day.
\<close>

definition dayKey :: "MergedPR \<Rightarrow> int" where
  "dayKey pr = mpr_mergedAt pr div 86400000"

definition isSpamPR :: "MergedPR list \<Rightarrow> ImpactConfig \<Rightarrow> MergedPR \<Rightarrow> bool" where
  "isSpamPR ps config pr =
     (if mpr_filesChanged pr < minPRSize config then True
      else of_len (filter (\<lambda>q. dayKey q = dayKey pr) ps) > maxPRFrequency config)"

definition filterSpamPRs ::
  "MergedPR list \<Rightarrow> ImpactConfig \<Rightarrow> MergedPR list \<times> MergedPR list" where
  "filterSpamPRs ps config =
     (filter (\<lambda>pr. \<not> isSpamPR ps config pr) ps, filter (isSpamPR ps config) ps)"

definition isSelfMerged :: "MergedPR \<Rightarrow> bool" where
  "isSelfMerged pr = (mpr_author pr = mpr_mergedBy pr)"

definition filterSelfMergedPRs :: "MergedPR list \<Rightarrow> MergedPR list \<times> MergedPR list" where
  "filterSelfMergedPRs ps = (filter (\<lambda>pr. \<not> isSelfMerged pr) ps, filter isSelfMerged ps)"

definition msPerMonth :: jsnum where
  "msPerMonth = Fin (1000 * 60 * 60 * 24 * 30)"

definition applyTimeDecay :: "MergedPR \<Rightarrow> Date \<Rightarrow> jsnum \<Rightarrow> jsnum" where
  "applyTimeDecay pr referenceDate decayFactor =
     jpow decayFactor ((getTime referenceDate - getTime (mpr_mergedAt pr)) / msPerMonth)"

definition calculatePRImpactScore ::
  "Date \<Rightarrow> MergedPR list \<Rightarrow> CodeReview list \<Rightarrow> ImpactConfig \<Rightarrow> ComponentBreakdown Scored" where
  "calculatePRImpactScore now ps reviewsReceived config =
     (if length ps = 0
      then \<lparr> score = Fin 0,
             breakdown = \<lparr> mergedPRCount = Fin 0, reviewEngagement = Fin 0,
                           acceptanceRate = Fin 0, repoDiversity = Fin 0,
                           cb_maintainerTrust = Fin 0 \<rparr> \<rparr>
      else
        let prCountScore =
              foldl (\<lambda>sum pr. sum + applyTimeDecay pr now (timeDecayFactor config)) (Fin 0) ps;
            normalizedPRCount = jmin (prCountScore / Fin 10) (Fin 1) * Fin 100;
            totalReviewComments =
              foldl (\<lambda>sum review. sum + cr_commentCount review) (Fin 0) reviewsReceived;
            avgReviewComments =
              (if length ps > 0 then totalReviewComments / of_len ps else Fin 0);
            engagement = jmin (avgReviewComments / Fin 5) (Fin 1) * Fin 100;
            acceptance = Fin 100;
            uniqueRepos = of_len (to_set (map mpr_repository ps));
            diversity = jmin (jlog10 (uniqueRepos + Fin 1) / jlog10 (Fin 50)) (Fin 1) * Fin 100;
            maintainerMerges = of_len (filter mpr_isMaintainerMerge ps);
            mTrust = (maintainerMerges / of_len ps) * Fin 100;
            score' = normalizedPRCount * Fin 0.3 + engagement * Fin 0.25 + acceptance * Fin 0.15
                     + diversity * Fin 0.15 + mTrust * Fin 0.15
        in \<lparr> score = jmin score' (Fin 100),
             breakdown = \<lparr> mergedPRCount = normalizedPRCount, reviewEngagement = engagement,
                           acceptanceRate = acceptance, repoDiversity = diversity,
                           cb_maintainerTrust = mTrust \<rparr> \<rparr>)"

definition calculateCollaborationScore ::
  "MergedPR list \<Rightarrow> CodeReview list \<Rightarrow> CodeReview list \<Rightarrow> Issue list
    \<Rightarrow> RepositoryContribution list \<Rightarrow> CollaborationBreakdown Scored" where
  "calculateCollaborationScore ps reviewsGiven reviewsReceived issues' repos =
     (if length ps = 0
      then \<lparr> score = Fin 0,
             breakdown = \<lparr> crossRepoContributions = Fin 0, cob_reviewReciprocity = Fin 0,
                           issueEngagement = Fin 0, teamParticipation = Fin 0 \<rparr> \<rparr>
      else
        let uniqueRepos = of_len (to_set (map mpr_repository ps));
            crossRepo = jmin (jlog10 (uniqueRepos + Fin 1) / jlog10 (Fin 20)) (Fin 1) * Fin 100;
            reviewsGivenCount = of_len reviewsGiven;
            reviewsReceivedCount = of_len reviewsReceived;
            totalReviews = reviewsGivenCount + reviewsReceivedCount;
            reciprocity =
              (if totalReviews > Fin 0
               then (jmin reviewsGivenCount reviewsReceivedCount
                     / jmax reviewsGivenCount reviewsReceivedCount) * Fin 100
               else Fin 0);
            issuesLeadingToPRs = of_len (filter iss_ledToMergedPR issues');
            engagement =
              (if length issues' > 0 then (issuesLeadingToPRs / of_len issues') * Fin 100
               else Fin 0);
            teamRepos = of_len (filter (\<lambda>r. rc_contributorCount r > Fin 1) repos);
            participation =
              (if length repos > 0 then (teamRepos / of_len repos) * Fin 100 else Fin 0);
            score' = crossRepo * Fin 0.3 + reciprocity * Fin 0.3 + engagement * Fin 0.2
                     + participation * Fin 0.2
        in \<lparr> score = jmin score' (Fin 100),
             breakdown = \<lparr> crossRepoContributions = crossRepo,
                           cob_reviewReciprocity = reciprocity, issueEngagement = engagement,
                           teamParticipation = participation \<rparr> \<rparr>)"

text \<open>
  \<^verbatim>\<open>getFullYear\<close> and \<^verbatim>\<open>getMonth\<close> read a date in the local time zone of the host; the
  calendar of the host is a parameter. The month key \<^verbatim>\<open>`${year}-${month}`\<close> is the pair of
  the two numbers.
\<close>

record Calendar =
  getFullYear :: "Date \<Rightarrow> int"
  getMonth :: "Date \<Rightarrow> int"

definition calculateLongevityScore ::
  "Calendar \<Rightarrow> MergedPR list \<Rightarrow> ActivitySpan \<Rightarrow> LongevityBreakdown Scored" where
  "calculateLongevityScore cal ps aspan =
     (if length ps = 0
      then \<lparr> score = Fin 0,
             breakdown = \<lparr> lb_activitySpan = Fin 0, consistency = Fin 0,
                           temporalDistribution = Fin 0 \<rparr> \<rparr>
      else
        let spanMonths = (getTime (lastPRDate aspan) - getTime (firstPRDate aspan)) / msPerMonth;
            activitySpanScore = jmin (spanMonths / Fin 24) (Fin 1) * Fin 100;
            monthsWithPRs =
              to_set (map (\<lambda>pr. (getFullYear cal (mpr_mergedAt pr), getMonth cal (mpr_mergedAt pr)))
                        ps);
            cons = (if spanMonths > Fin 0
                    then (of_len monthsWithPRs / jmax spanMonths (Fin 1)) * Fin 100
                    else Fin 0);
            years = of_len (to_set (map (\<lambda>pr. getFullYear cal (mpr_mergedAt pr)) ps));
            distribution = jmin (years / Fin 3) (Fin 1) * Fin 100;
            score' = activitySpanScore * Fin 0.4 + cons * Fin 0.35 + distribution * Fin 0.25
        in \<lparr> score = jmin score' (Fin 100),
             breakdown = \<lparr> lb_activitySpan = spanMonths, consistency = cons,
                           temporalDistribution = distribution \<rparr> \<rparr>)"

definition calculateQualityScore ::
  "MergedPR list \<Rightarrow> CodeReview list \<Rightarrow> QualityBreakdown Scored" where
  "calculateQualityScore ps reviewsReceived =
     (if length ps = 0
      then \<lparr> score = Fin 0,
             breakdown = \<lparr> reviewDepth = Fin 0, qb_maintainerTrust = Fin 0,
                           contributionComplexity = Fin 0, antiSpamScore = Fin 0 \<rparr> \<rparr>
      else
        let avgReviewRounds =
              foldl (\<lambda>sum pr. sum + mpr_reviewRounds pr) (Fin 0) ps / of_len ps;
            depth = jmin (avgReviewRounds / Fin 3) (Fin 1) * Fin 100;
            maintainerMerges = of_len (filter mpr_isMaintainerMerge ps);
            mTrust = (maintainerMerges / of_len ps) * Fin 100;
            avgFilesChanged =
              foldl (\<lambda>sum pr. sum + mpr_filesChanged pr) (Fin 0) ps / of_len ps;
            avgDirectoriesTouched =
              foldl (\<lambda>sum pr. sum + mpr_directoriesTouched pr) (Fin 0) ps / of_len ps;
            complexity =
              jmin ((avgFilesChanged + avgDirectoriesTouched) / Fin 10) (Fin 1) * Fin 100;
            forkCount = of_len (filter mpr_isFork ps);
            forkPenalty = (forkCount / of_len ps) * Fin 50;
            antiSpam = jmax (Fin 100 - forkPenalty) (Fin 0);
            score' = depth * Fin 0.3 + mTrust * Fin 0.3 + complexity * Fin 0.25
                     + antiSpam * Fin 0.15
        in \<lparr> score = jmin score' (Fin 100),
             breakdown = \<lparr> reviewDepth = depth, qb_maintainerTrust = mTrust,
                           contributionComplexity = complexity, antiSpamScore = antiSpam \<rparr> \<rparr>)"

text \<open>
  The explainability data. \<open>repoCounts\<close> is the \<^verbatim>\<open>Map\<close> from repository to its number of
  clean pull requests, in insertion order; the sort by descending count is stable.
  \<open>recentEvents\<close> maps the last ten clean pull requests, each with its own reading of
  the clock, numbered from \<open>k\<close>.
\<close>

definition repoCounts :: "MergedPR list \<Rightarrow> (string \<times> nat) list" where
  "repoCounts ps =
     map (\<lambda>r. (r, length (filter (\<lambda>pr. mpr_repository pr = r) ps)))
       (to_set (map mpr_repository ps))"

definition topRepos :: "MergedPR list \<Rightarrow> TopRepo list" where
  "topRepos ps =
     take 10 (sort_key (\<lambda>e. - int (prCount e))
       (map (\<lambda>(r, n). \<lparr> repo = r, prCount = n, tr_score = of_count n * Fin 10 \<rparr>)
          (repoCounts ps)))"

fun recentEvents :: "Clock \<Rightarrow> nat \<Rightarrow> jsnum \<Rightarrow> MergedPR list \<Rightarrow> RecentEvent list" where
  "recentEvents clock k factor [] = []"
| "recentEvents clock k factor (pr # rest) =
     \<lparr> re_date = mpr_mergedAt pr,
       event = ''Merged PR in '' @ mpr_repository pr,
       re_impact = applyTimeDecay pr (clock k) factor * Fin 10 \<rparr>
     # recentEvents clock (Suc k) factor rest"

definition calculateImpactScore ::
  "Clock \<Rightarrow> Calendar \<Rightarrow> GitHubActivity \<Rightarrow> ImpactScoreConfig option \<Rightarrow> ImpactScoreResult" where
  "calculateImpactScore clock cal githubActivity config =
     (let fullConfig = impactFullConfig config;
          validPRs = fst (filterSelfMergedPRs (mergedPRs githubActivity));
          selfMerged = snd (filterSelfMergedPRs (mergedPRs githubActivity));
          cleanPRs = fst (filterSpamPRs validPRs fullConfig);
          spam = snd (filterSpamPRs validPRs fullConfig);
          prImpact' =
            calculatePRImpactScore (clock 0) cleanPRs (ga_reviewsReceived githubActivity)
              fullConfig;
          collaboration' =
            calculateCollaborationScore cleanPRs (ga_reviewsGiven githubActivity)
              (ga_reviewsReceived githubActivity) (ga_issues githubActivity)
              (ga_repositories githubActivity);
          longevity' = calculateLongevityScore cal cleanPRs (activitySpan githubActivity);
          quality' = calculateQualityScore cleanPRs (ga_reviewsReceived githubActivity);
          totalScore =
            score prImpact' * nullish (iw_prImpact (impactWeights fullConfig)) (Fin 0.4)
            + score collaboration'
              * nullish (iw_collaboration (impactWeights fullConfig)) (Fin 0.3)
            + score longevity' * nullish (iw_longevity (impactWeights fullConfig)) (Fin 0.2)
            + score quality' * nullish (iw_quality (impactWeights fullConfig)) (Fin 0.1);
          spanMonths =
            (getTime (lastPRDate (activitySpan githubActivity))
             - getTime (firstPRDate (activitySpan githubActivity))) / msPerMonth
      in \<lparr> im_totalScore = clamp100 totalScore,
           im_components =
             \<lparr> prImpact = prImpact', collaboration = collaboration', longevity = longevity',
               quality = quality' \<rparr>,
           im_signals =
             \<lparr> totalMergedPRs = of_len (mergedPRs githubActivity),
               selfMergedPRs = of_len selfMerged,
               spamPRs = of_len spam,
               activeRepositories = of_len (to_set (map mpr_repository cleanPRs)),
               activitySpanMonths = jmax spanMonths (Fin 0) \<rparr>,
           explainability =
             \<lparr> topContributingRepos = topRepos cleanPRs,
               recentActivity =
                 rev (recentEvents clock 1 (timeDecayFactor fullConfig)
                        (drop (length cleanPRs - 10) cleanPRs)),
               penalties =
                 [\<lparr> reason = ''Self-merged PRs excluded'', pen_count = of_len selfMerged,
                    pen_impact = Fin 0 \<rparr>,
                  \<lparr> reason = ''Spam PRs filtered'', pen_count = of_len spam,
                    pen_impact = Fin 0 \<rparr>] \<rparr> \<rparr>)"

section \<open>Compatibility calculator (\<^verbatim>\<open>scores/compatibility.ts\<close>)\<close>

text \<open>
  \<^verbatim>\<open>toLowerCase\<close> on the letters A to Z (strings are taken to be ASCII);
  \<^verbatim>\<open>s.substring(s.lastIndexOf('.'))\<close> is the suffix from the last dot, and the whole
  string when there is no dot (\<^verbatim>\<open>lastIndexOf\<close> is then -1, which \<^verbatim>\<open>substring\<close> reads as 0).
\<close>

definition lower_char :: "char \<Rightarrow> char" where
  "lower_char c =
     (case map_of (zip ''ABCDEFGHIJKLMNOPQRSTUVWXYZ'' ''abcdefghijklmnopqrstuvwxyz'') c of
        None \<Rightarrow> c | Some l \<Rightarrow> l)"

definition toLowerCase :: "string \<Rightarrow> string" where
  "toLowerCase s = map lower_char s"

definition lastIndexOf :: "string \<Rightarrow> char \<Rightarrow> int" where
  "lastIndexOf s c =
     (if c \<in> set s then int (length s) - 1 - int (length (takeWhile (\<lambda>x. \<not> x = c) (rev s)))
      else - 1)"

definition substring :: "string \<Rightarrow> int \<Rightarrow> string" where
  "substring s i = drop (nat (max 0 i)) s"

text \<open>\<^verbatim>\<open>x || ''\<close> on a nullable string.\<close>

definition orEmpty :: "string option \<Rightarrow> string" where
  "orEmpty s = (case s of None \<Rightarrow> [] | Some v \<Rightarrow> v)"

datatype RoleType = Backend | Frontend | Fullstack | Devops | Mobile | DataEngineer | Security
  | MlEngineer | Sre | PlatformEngineer

definition roleName :: "RoleType \<Rightarrow> string" where
  "roleName r =
     (case r of Backend \<Rightarrow> ''backend'' | Frontend \<Rightarrow> ''frontend'' | Fullstack \<Rightarrow> ''fullstack''
      | Devops \<Rightarrow> ''devops'' | Mobile \<Rightarrow> ''mobile'' | DataEngineer \<Rightarrow> ''data-engineer''
      | Security \<Rightarrow> ''security'' | MlEngineer \<Rightarrow> ''ml-engineer'' | Sre \<Rightarrow> ''sre''
      | PlatformEngineer \<Rightarrow> ''platform-engineer'')"

record RoleQuery =
  role :: RoleType
  requiredTechnologies :: "string list option"
  preferredExperience :: "string list option"

record Indicators =
  ind_languages :: "string list"
  ind_fileExtensions :: "string list"
  ind_keywords :: "string list"
  ind_architecturePatterns :: "string list"
  ind_negativeIndicators :: "string list"

definition ROLE_TECHNOLOGY_INDICATORS :: "RoleType \<Rightarrow> Indicators" where
  "ROLE_TECHNOLOGY_INDICATORS r =
     (case r of
        Backend \<Rightarrow>
          \<lparr> ind_languages = [''python'', ''java'', ''go'', ''rust'', ''ruby'', ''php'', ''scala'',
                             ''kotlin'', ''c#'', ''c++''],
            ind_fileExtensions = [''.py'', ''.java'', ''.go'', ''.rs'', ''.rb'', ''.php'', ''.scala'',
                                  ''.kt'', ''.cs'', ''.cpp''],
            ind_keywords = [''api'', ''server'', ''backend'', ''service'', ''microservice'', ''rest'',
                            ''graphql'', ''grpc'', ''database'', ''orm''],
            ind_architecturePatterns = [''microservices'', ''monolith'', ''api-gateway'',
                                        ''service-mesh'', ''event-driven''],
            ind_negativeIndicators = [''react'', ''vue'', ''angular'', ''css'', ''html'', ''frontend'',
                                      ''ui-component''] \<rparr>
      | Frontend \<Rightarrow>
          \<lparr> ind_languages = [''javascript'', ''typescript'', ''html'', ''css'', ''scss'', ''sass'',
                             ''less''],
            ind_fileExtensions = [''.js'', ''.jsx'', ''.ts'', ''.tsx'', ''.html'', ''.css'', ''.scss'',
                                  ''.sass'', ''.less'', ''.vue''],
            ind_keywords = [''react'', ''vue'', ''angular'', ''component'', ''ui'', ''frontend'',
                            ''client'', ''browser'', ''dom''],
            ind_architecturePatterns = [''spa'', ''ssr'', ''component-library'', ''design-system'',
                                        ''pwa''],
            ind_negativeIndicators = [''database'', ''server'', ''api-server'', ''microservice'',
                                      ''backend-service''] \<rparr>
      | Fullstack \<Rightarrow>
          \<lparr> ind_languages = [''javascript'', ''typescript'', ''python'', ''java'', ''ruby'', ''php''],
            ind_fileExtensions = [''.js'', ''.jsx'', ''.ts'', ''.tsx'', ''.py'', ''.java'', ''.rb'',
                                  ''.php''],
            ind_keywords = [''fullstack'', ''full-stack'', ''api'', ''component'', ''server'',
                            ''client''],
            ind_architecturePatterns = [''monorepo'', ''fullstack-app'', ''isomorphic''],
            ind_negativeIndicators = [] \<rparr>
      | Devops \<Rightarrow>
          \<lparr> ind_languages = [''yaml'', ''python'', ''bash'', ''shell'', ''groovy''],
            ind_fileExtensions = [''.yaml'', ''.yml'', ''.tf'', ''.tfvars'', ''.sh'', ''.py'',
                                  ''.groovy'', ''.jenkinsfile''],
            ind_keywords = [''docker'', ''kubernetes'', ''ci/cd'', ''terraform'', ''ansible'',
                            ''pipeline'', ''deployment'', ''infrastructure''],
            ind_architecturePatterns = [''infrastructure-as-code'', ''ci-cd'', ''containerization'',
                                        ''orchestration''],
            ind_negativeIndicators = [''ui-component'', ''frontend'', ''react-component''] \<rparr>
      | Mobile \<Rightarrow>
          \<lparr> ind_languages = [''swift'', ''kotlin'', ''java'', ''dart'', ''objective-c''],
            ind_fileExtensions = [''.swift'', ''.kt'', ''.java'', ''.dart'', ''.m'', ''.mm'',
                                  ''.xcodeproj''],
            ind_keywords = [''ios'', ''android'', ''mobile'', ''app'', ''react-native'', ''flutter'',
                            ''xcode''],
            ind_architecturePatterns = [''mobile-app'', ''native-app'', ''cross-platform''],
            ind_negativeIndicators = [''web-server'', ''backend-api'', ''microservice''] \<rparr>
      | DataEngineer \<Rightarrow>
          \<lparr> ind_languages = [''python'', ''sql'', ''scala'', ''java''],
            ind_fileExtensions = [''.py'', ''.sql'', ''.scala'', ''.java'', ''.ipynb''],
            ind_keywords = [''data'', ''etl'', ''pipeline'', ''spark'', ''hadoop'', ''warehouse'',
                            ''analytics'', ''big-data''],
            ind_architecturePatterns = [''data-pipeline'', ''etl'', ''data-warehouse'',
                                        ''batch-processing''],
            ind_negativeIndicators = [''ui'', ''frontend'', ''component''] \<rparr>
      | Security \<Rightarrow>
          \<lparr> ind_languages = [''python'', ''go'', ''rust'', ''c'', ''c++''],
            ind_fileExtensions = [''.py'', ''.go'', ''.rs'', ''.c'', ''.cpp''],
            ind_keywords = [''security'', ''vulnerability'', ''penetration'', ''encryption'', ''auth'',
                            ''oauth'', ''jwt'', ''ssl'', ''tls''],
            ind_architecturePatterns = [''security-audit'', ''penetration-test'',
                                        ''vulnerability-scan''],
            ind_negativeIndicators = [] \<rparr>
      | MlEngineer \<Rightarrow>
          \<lparr> ind_languages = [''python'', ''r'', ''julia''],
            ind_fileExtensions = [''.py'', ''.r'', ''.jl'', ''.ipynb'', ''.pkl''],
            ind_keywords = [''machine-learning'', ''ml'', ''tensorflow'', ''pytorch'', ''model'',
                            ''training'', ''neural'', ''deep-learning''],
            ind_architecturePatterns = [''ml-pipeline'', ''model-training'', ''feature-engineering''],
            ind_negativeIndicators = [''ui'', ''frontend'', ''component''] \<rparr>
      | Sre \<Rightarrow>
          \<lparr> ind_languages = [''python'', ''go'', ''yaml'', ''bash''],
            ind_fileExtensions = [''.py'', ''.go'', ''.yaml'', ''.yml'', ''.sh'', ''.tf''],
            ind_keywords = [''reliability'', ''monitoring'', ''alerting'', ''slo'', ''sla'',
                            ''incident'', ''oncall'', ''observability''],
            ind_architecturePatterns = [''monitoring'', ''alerting'', ''incident-response'',
                                        ''reliability-engineering''],
            ind_negativeIndicators = [''ui-component'', ''frontend''] \<rparr>
      | PlatformEngineer \<Rightarrow>
          \<lparr> ind_languages = [''go'', ''python'', ''yaml'', ''rust''],
            ind_fileExtensions = [''.go'', ''.py'', ''.yaml'', ''.yml'', ''.rs''],
            ind_keywords = [''platform'', ''infrastructure'', ''tooling'', ''developer-experience'',
                            ''internal-tools''],
            ind_architecturePatterns = [''platform-as-a-service'', ''internal-platform'',
                                        ''developer-tooling''],
            ind_negativeIndicators = [''customer-facing'', ''ui-component''] \<rparr>)"

text \<open>\<^verbatim>\<open>`${pr.title} ${pr.body || ''}`.toLowerCase()\<close> and its siblings.\<close>

definition prText :: "PRAnalysis \<Rightarrow> string" where
  "prText pr = toLowerCase (pra_title pr @ '' '' @ orEmpty (pra_body pr))"

definition issueText :: "IssueAnalysis \<Rightarrow> string" where
  "issueText i = toLowerCase (isa_title i @ '' '' @ orEmpty (isa_body i))"

definition repoText :: "RepositoryAnalysis \<Rightarrow> string" where
  "repoText r = toLowerCase (orEmpty (description r) @ '' '' @ join '' '' (topics r))"

definition hasKeyword :: "Indicators \<Rightarrow> string \<Rightarrow> bool" where
  "hasKeyword ind text' = list_ex (\<lambda>kw. str_includes text' kw) (ind_keywords ind)"

record FileAnalysis =
  relevantFiles :: nat
  totalFiles :: nat
  fa_matchedTechnologies :: "string list"
  fa_mismatchedTechnologies :: "string list"

definition fileIsRelevant :: "Indicators \<Rightarrow> FileChangeAnalysis \<Rightarrow> bool" where
  "fileIsRelevant ind file =
     (list_ex (\<lambda>e. toLowerCase (fileExtension file) = e) (ind_fileExtensions ind)
      \<or> list_ex (\<lambda>kw. str_includes (toLowerCase (filePath file)) kw
                      \<or> str_includes (directory file) kw) (ind_keywords ind))"

definition analyzeFileChanges :: "FileChangeAnalysis list \<Rightarrow> RoleType \<Rightarrow> FileAnalysis" where
  "analyzeFileChanges files r =
     (let ind = ROLE_TECHNOLOGY_INDICATORS r
      in \<lparr> relevantFiles = length (filter (fileIsRelevant ind) files),
           totalFiles = length files,
           fa_matchedTechnologies =
             foldl (\<lambda>m file.
                      if list_ex (\<lambda>e. toLowerCase (fileExtension file) = e) (ind_fileExtensions ind)
                      then set_add m (toLowerCase (fileExtension file)) else m) [] files,
           fa_mismatchedTechnologies =
             foldl (\<lambda>m file.
                      if list_ex (\<lambda>ni. str_includes (toLowerCase (filePath file)) ni
                                       \<or> str_includes (directory file) ni)
                           (ind_negativeIndicators ind)
                      then set_add m (toLowerCase (fileExtension file)) else m) [] files \<rparr>)"

record TechMatch =
  tm_score :: jsnum
  matched :: "string list"
  mismatched :: "string list"

definition techFile ::
  "Indicators \<Rightarrow> string list \<times> string list \<Rightarrow> FileChangeAnalysis \<Rightarrow> string list \<times> string list"
  where
  "techFile ind acc file =
     (let ext = toLowerCase (fileExtension file);
          path = toLowerCase (filePath file);
          m = (if ext \<in> set (ind_fileExtensions ind) then set_add (fst acc) ext else fst acc);
          mm = (if list_ex (\<lambda>ni. str_includes path ni) (ind_negativeIndicators ind)
                then set_add (snd acc) ext else snd acc)
      in (m, mm))"

definition techLanguage :: "Indicators \<Rightarrow> string list \<Rightarrow> string \<Rightarrow> string list" where
  "techLanguage ind m lang =
     (if toLowerCase lang \<in> set (ind_languages ind) then set_add m lang else m)"

definition techPR ::
  "Indicators \<Rightarrow> string list \<times> string list \<Rightarrow> PRAnalysis \<Rightarrow> string list \<times> string list" where
  "techPR ind acc pr =
     (let acc1 = foldl (techFile ind) acc (pra_filesChanged pr)
      in (foldl (techLanguage ind) (fst acc1) (pra_languages pr), snd acc1))"

definition techRepo :: "Indicators \<Rightarrow> string list \<Rightarrow> RepositoryAnalysis \<Rightarrow> string list" where
  "techRepo ind m r =
     (let m1 = foldl (\<lambda>m entry.
                        if snd entry > Fin 10 \<and> toLowerCase (fst entry) \<in> set (ind_languages ind)
                        then set_add m (fst entry) else m) m (ra_languages r)
      in if hasKeyword ind (repoText r) then set_add m1 ''repository-keyword'' else m1)"

definition calculateTechnologyStackMatch :: "EngineerActivity \<Rightarrow> RoleType \<Rightarrow> TechMatch" where
  "calculateTechnologyStackMatch activity r =
     (let ind = ROLE_TECHNOLOGY_INDICATORS r;
          afterPRs = foldl (techPR ind) ([], []) (prs activity);
          matchedTechs = foldl (techRepo ind) (fst afterPRs) (repositories activity);
          mismatchedTechs = snd afterPRs;
          baseScore = jmin (of_len matchedTechs * Fin 15) (Fin 100);
          penalty = jmin (of_len mismatchedTechs * Fin 10) (Fin 50)
      in \<lparr> tm_score = jmax (baseScore - penalty) (Fin 0),
           matched = matchedTechs, mismatched = mismatchedTechs \<rparr>)"

record DepthAnalysis =
  da_score :: jsnum
  relevantPRs :: nat
  da_totalPRs :: nat

text \<open>
  One pull request adds 1 to \<^verbatim>\<open>relevantPRs\<close> when more than half of its files are
  relevant, and 1 again when its title or body holds a keyword.
\<close>

definition depthPR :: "RoleType \<Rightarrow> nat \<Rightarrow> PRAnalysis \<Rightarrow> nat" where
  "depthPR r n pr =
     (let analysis = analyzeFileChanges (pra_filesChanged pr) r;
          relevanceRatio =
            (if totalFiles analysis > 0
             then of_count (relevantFiles analysis) / of_count (totalFiles analysis) else Fin 0);
          n1 = (if relevanceRatio > Fin 0.5 then Suc n else n)
      in if hasKeyword (ROLE_TECHNOLOGY_INDICATORS r) (prText pr) then Suc n1 else n1)"

definition calculateDomainContributionDepth :: "EngineerActivity \<Rightarrow> RoleType \<Rightarrow> DepthAnalysis"
  where
  "calculateDomainContributionDepth activity r =
     (let relevant = foldl (depthPR r) 0 (prs activity);
          n = length (prs activity)
      in \<lparr> da_score = (if n > 0 then (of_count relevant / of_count n) * Fin 100 else Fin 0),
           relevantPRs = relevant, da_totalPRs = n \<rparr>)"

record ArchMatch =
  am_score :: jsnum
  patterns :: "string list"

definition archPR :: "Indicators \<Rightarrow> string list \<Rightarrow> PRAnalysis \<Rightarrow> string list" where
  "archPR ind acc pr =
     (let filePaths = join '' '' (map (\<lambda>f. toLowerCase (filePath f)) (pra_filesChanged pr));
          d1 = foldl (\<lambda>d pat. if str_includes (prText pr) pat \<or> str_includes filePaths pat
                               then set_add d pat else d) acc (ind_architecturePatterns ind);
          d2 = (if isAPIChange pr then set_add d1 ''api-design'' else d1);
          d3 = (if isInfrastructureChange pr then set_add d2 ''infrastructure'' else d2)
      in if isDatabaseChange pr then set_add d3 ''data-layer'' else d3)"

definition archRepo :: "Indicators \<Rightarrow> string list \<Rightarrow> RepositoryAnalysis \<Rightarrow> string list" where
  "archRepo ind acc r =
     foldl (\<lambda>d pat. if str_includes (repoText r) pat then set_add d pat else d) acc
       (ind_architecturePatterns ind)"

definition calculateArchitecturePatternMatch :: "EngineerActivity \<Rightarrow> RoleType \<Rightarrow> ArchMatch" where
  "calculateArchitecturePatternMatch activity r =
     (let ind = ROLE_TECHNOLOGY_INDICATORS r;
          detected = foldl (archRepo ind) (foldl (archPR ind) [] (prs activity))
                       (repositories activity)
      in \<lparr> am_score = jmin (of_len detected * Fin 20) (Fin 100), patterns = detected \<rparr>)"

definition calculateFileTypeAlignment :: "EngineerActivity \<Rightarrow> RoleType \<Rightarrow> jsnum" where
  "calculateFileTypeAlignment activity r =
     (let ind = ROLE_TECHNOLOGY_INDICATORS r;
          allFiles = concat (map pra_filesChanged (prs activity));
          relevant = filter (\<lambda>f. toLowerCase (fileExtension f) \<in> set (ind_fileExtensions ind))
                       allFiles
      in if length allFiles > 0 then (of_len relevant / of_len allFiles) * Fin 100 else Fin 0)"

definition activityPR :: "RoleType \<Rightarrow> PRAnalysis \<Rightarrow> bool" where
  "activityPR r pr =
     (let byFlags =
            (if r = Backend \<and> (isAPIChange pr \<or> isDatabaseChange pr) then True
             else if r = Frontend \<and> isUIChange pr then True
             else if r = Devops \<and> isInfrastructureChange pr then True
             else if r = Devops \<and> isConfigChange pr then True
             else False)
      in if hasKeyword (ROLE_TECHNOLOGY_INDICATORS r) (prText pr) then True else byFlags)"

text \<open>An issue adds 1 for a keyword in its text and 1 again for its type flag.\<close>

definition activityIssue :: "RoleType \<Rightarrow> nat \<Rightarrow> IssueAnalysis \<Rightarrow> nat" where
  "activityIssue r n i =
     (let n1 = (if hasKeyword (ROLE_TECHNOLOGY_INDICATORS r) (issueText i) then Suc n else n)
      in if r = Devops \<and> isInfrastructure i then Suc n1
         else if r = Security \<and> isSecurity i then Suc n1
         else n1)"

definition calculateActivityTypeMatch :: "EngineerActivity \<Rightarrow> RoleType \<Rightarrow> jsnum" where
  "calculateActivityTypeMatch activity r =
     (let totalActivities = length (prs activity) + length (issues activity);
          relevantActivities =
            foldl (activityIssue r) (length (filter (activityPR r) (prs activity)))
              (issues activity)
      in if totalActivities > 0
         then (of_count relevantActivities / of_count totalActivities) * Fin 100 else Fin 0)"

definition repoIsRelevant :: "Indicators \<Rightarrow> RepositoryAnalysis \<Rightarrow> bool" where
  "repoIsRelevant ind r =
     (if ra_isFork r then False
      else if toLowerCase (primaryLanguage r) \<in> set (ind_languages ind) then True
      else hasKeyword ind (repoText r))"

definition calculateRepositoryTypeMatch :: "EngineerActivity \<Rightarrow> RoleType \<Rightarrow> jsnum" where
  "calculateRepositoryTypeMatch activity r =
     (let ind = ROLE_TECHNOLOGY_INDICATORS r;
          relevantRepos = length (filter (repoIsRelevant ind) (repositories activity));
          totalRepos = length (filter (\<lambda>x. \<not> ra_isFork x) (repositories activity))
      in if totalRepos > 0 then (of_count relevantRepos / of_count totalRepos) * Fin 100
         else Fin 0)"

text \<open>
  A review adds 1 when one of its files has a relevant extension and 1 again when one of
  its languages is relevant.
\<close>

definition reviewCount :: "Indicators \<Rightarrow> nat \<Rightarrow> ReviewRecord \<Rightarrow> nat" where
  "reviewCount ind n review =
     (let n1 = (if list_ex (\<lambda>file. toLowerCase (substring file (lastIndexOf file CHR ''.''))
                                    \<in> set (ind_fileExtensions ind)) (reviewedFiles review)
                then Suc n else n)
      in if list_ex (\<lambda>lang. toLowerCase lang \<in> set (ind_languages ind)) (rr_languages review)
         then Suc n1 else n1)"

definition calculateReviewDomainExpertise :: "EngineerActivity \<Rightarrow> RoleType \<Rightarrow> jsnum" where
  "calculateReviewDomainExpertise activity r =
     (let relevantReviews = foldl (reviewCount (ROLE_TECHNOLOGY_INDICATORS r)) 0
                              (codeReviews activity);
          totalReviews = length (codeReviews activity)
      in if totalReviews > 0 then (of_count relevantReviews / of_count totalReviews) * Fin 100
         else Fin 0)"

definition calculateNegativeSignals :: "EngineerActivity \<Rightarrow> RoleType \<Rightarrow> NegativeSignals" where
  "calculateNegativeSignals activity r =
     (let ind = ROLE_TECHNOLOGY_INDICATORS r;
          mismatchCount =
            length (filter (\<lambda>file. list_ex (\<lambda>ni. str_includes (toLowerCase (filePath file)) ni)
                                     (ind_negativeIndicators ind))
                      (concat (map pra_filesChanged (prs activity))));
          techMismatch =
            jmin ((of_count mismatchCount / of_len (prs activity)) * Fin 100) (Fin 100);
          contradictionScore = techMismatch;
          depthAnalysis = calculateDomainContributionDepth activity r;
          archAnalysis = calculateArchitecturePatternMatch activity r;
          techAnalysis = calculateTechnologyStackMatch activity r
      in \<lparr> technologyMismatch = techMismatch,
           domainContradiction = contradictionScore,
           insufficientDepth = (if da_totalPRs depthAnalysis < 5 then Fin 100 else Fin 0),
           architectureMismatch = (if length (patterns archAnalysis) = 0 then Fin 50 else Fin 0),
           technologyOverweight =
             (if length (mismatched techAnalysis) > length (matched techAnalysis) then Fin 70
              else Fin 0) \<rparr>)"

definition baseWeights :: CompatibilitySignals where
  "baseWeights =
     \<lparr> technologyStackMatch = Fin 0.2, domainContributionDepth = Fin 0.25,
       architecturePatternMatch = Fin 0.15, fileTypeAlignment = Fin 0.15,
       activityTypeMatch = Fin 0.1, repositoryTypeMatch = Fin 0.1,
       reviewDomainExpertise = Fin 0.05 \<rparr>"

definition getRoleWeights :: "RoleType \<Rightarrow> CompatibilitySignals" where
  "getRoleWeights r =
     (case r of
        Backend \<Rightarrow>
          baseWeights \<lparr> technologyStackMatch := Fin 0.25, domainContributionDepth := Fin 0.3,
                        architecturePatternMatch := Fin 0.2, fileTypeAlignment := Fin 0.15,
                        activityTypeMatch := Fin 0.1 \<rparr>
      | Frontend \<Rightarrow>
          baseWeights \<lparr> fileTypeAlignment := Fin 0.25, technologyStackMatch := Fin 0.25,
                        domainContributionDepth := Fin 0.25, activityTypeMatch := Fin 0.15 \<rparr>
      | Devops \<Rightarrow>
          baseWeights \<lparr> activityTypeMatch := Fin 0.25, architecturePatternMatch := Fin 0.25,
                        technologyStackMatch := Fin 0.2, domainContributionDepth := Fin 0.2 \<rparr>
      | _ \<Rightarrow> baseWeights)"

definition weightedSignals :: "CompatibilitySignals \<Rightarrow> CompatibilitySignals \<Rightarrow> jsnum" where
  "weightedSignals signals ws =
     technologyStackMatch signals * technologyStackMatch ws
     + domainContributionDepth signals * domainContributionDepth ws
     + architecturePatternMatch signals * architecturePatternMatch ws
     + fileTypeAlignment signals * fileTypeAlignment ws
     + activityTypeMatch signals * activityTypeMatch ws
     + repositoryTypeMatch signals * repositoryTypeMatch ws
     + reviewDomainExpertise signals * reviewDomainExpertise ws"

definition negativePenalty :: "NegativeSignals \<Rightarrow> jsnum" where
  "negativePenalty neg =
     technologyMismatch neg * Fin 0.15 + domainContradiction neg * Fin 0.1
     + insufficientDepth neg * Fin 0.2 + architectureMismatch neg * Fin 0.1
     + technologyOverweight neg * Fin 0.15"

definition levelOfScore :: "jsnum \<Rightarrow> CompatibilityLevel" where
  "levelOfScore s =
     (if s \<ge> Fin 75 then CL_high else if s \<ge> Fin 50 then CL_medium
      else if s \<ge> Fin 25 then CL_low else CL_poor)"

definition calculateCompatibilityScore ::
  "EngineerActivity \<Rightarrow> RoleQuery \<Rightarrow> CompatibilityScoreResult" where
  "calculateCompatibilityScore activity query =
     (let r = role query;
          ws = getRoleWeights r;
          techStack = calculateTechnologyStackMatch activity r;
          depth = calculateDomainContributionDepth activity r;
          architecture = calculateArchitecturePatternMatch activity r;
          signals =
            \<lparr> technologyStackMatch = tm_score techStack,
              domainContributionDepth = da_score depth,
              architecturePatternMatch = am_score architecture,
              fileTypeAlignment = calculateFileTypeAlignment activity r,
              activityTypeMatch = calculateActivityTypeMatch activity r,
              repositoryTypeMatch = calculateRepositoryTypeMatch activity r,
              reviewDomainExpertise = calculateReviewDomainExpertise activity r \<rparr>;
          neg = calculateNegativeSignals activity r;
          totalScore = jmax (Fin 0) (jmin (Fin 100) (weightedSignals signals ws - negativePenalty neg));
          techStrong = (tm_score techStack > Fin 70);
          depthStrong = (da_score depth > Fin 70);
          archFound = (length (patterns architecture) > 0)
      in \<lparr> co_totalScore = totalScore,
           compatibilityLevel = levelOfScore totalScore,
           co_signals = signals,
           negativeSignals = neg,
           explanation =
             \<lparr> ex_role = roleName r,
               ex_strengths =
                 (if techStrong
                  then [''Strong technology stack match with ''
                        @ show_nat (length (matched techStack)) @ '' relevant technologies'']
                  else [])
                 @ (if depthStrong
                    then [''Deep domain contributions: '' @ show_nat (relevantPRs depth) @ ''/''
                          @ show_nat (da_totalPRs depth) @ '' relevant PRs'']
                    else [])
                 @ (if archFound
                    then [''Recognized architecture patterns: ''
                          @ join '', '' (take 3 (patterns architecture))]
                    else []),
               ex_weaknesses =
                 (if techStrong then []
                  else if tm_score techStack < Fin 30 then [''Limited technology stack alignment'']
                  else [])
                 @ (if technologyMismatch neg > Fin 50
                    then [''Significant contributions in mismatched technologies''] else [])
                 @ (if insufficientDepth neg > Fin 0
                    then [''Insufficient contribution depth in role domain''] else []),
               evidence =
                 (if techStrong
                  then [\<lparr> ev_type = ''Technology Stack'',
                          ev_description = ''Matched technologies: ''
                            @ join '', '' (take 5 (matched techStack)),
                          ev_score = tm_score techStack \<rparr>]
                  else [])
                 @ (if depthStrong
                    then [\<lparr> ev_type = ''Contribution Depth'',
                            ev_description = show_nat (relevantPRs depth) @ '' out of ''
                              @ show_nat (da_totalPRs depth) @ '' PRs are role-relevant'',
                            ev_score = da_score depth \<rparr>]
                    else [])
                 @ (if archFound
                    then [\<lparr> ev_type = ''Architecture Patterns'',
                            ev_description = ''Detected patterns: ''
                              @ join '', '' (patterns architecture),
                            ev_score = am_score architecture \<rparr>]
                    else []) \<rparr>,
           co_breakdown =
             \<lparr> technologyStack =
                 \<lparr> matchedTechnologies = matched techStack,
                   mismatchedTechnologies = mismatched techStack,
                   tsb_score = tm_score techStack \<rparr>,
               contributionDepth =
                 \<lparr> cdb_relevantPRs = relevantPRs depth, cdb_totalPRs = da_totalPRs depth,
                   cdb_score = da_score depth \<rparr>,
               architecturePatterns =
                 \<lparr> detectedPatterns = patterns architecture, apb_score = am_score architecture \<rparr> \<rparr> \<rparr>)"

section \<open>Sample inputs\<close>

text \<open>
  The score results that the repository's recruiter-match tests build
  (\<^verbatim>\<open>createMockTrustResult\<close> and its siblings), with the total score as a parameter.
  Breakdown fields that the tests leave out are zero.
\<close>

definition mockTrustResult :: "jsnum \<Rightarrow> TrustScoreResult" where
  "mockTrustResult s =
     \<lparr> tr_totalScore = s, isAuthentic = True, confidence = Fin 90,
       tr_components =
         \<lparr> accountAuthenticity =
             \<lparr> score = Fin 85,
               breakdown = \<lparr> ab_accountAge = Fin 0, ab_accountMaturity = Fin 0,
                             profileCompleteness = Fin 0 \<rparr> \<rparr>,
           contributionAuthenticity =
             \<lparr> score = Fin 80,
               breakdown = \<lparr> ctb_contributionSpan = Fin 0, ctb_repositoryDiversity = Fin 0,
                             ctb_maintainerTrust = Fin 0, temporalConsistency = Fin 0 \<rparr> \<rparr>,
           collaborationSignals =
             \<lparr> score = Fin 75,
               breakdown = \<lparr> csb_uniqueCollaborators = Fin 0, csb_maintainerInteractions = Fin 0,
                             crossRepoCollaborations = Fin 0, csb_reviewReciprocity = Fin 0 \<rparr> \<rparr>,
           antiGamingScore =
             \<lparr> score = Fin 90,
               breakdown = \<lparr> agb_spamDetection = Fin 0, forkFarmingPenalty = Fin 0,
                             patternAnomalies = Fin 0, behavioralRedFlags = Fin 0 \<rparr> \<rparr> \<rparr>,
       tr_signals =
         \<lparr> accountAge = Fin 0, accountMaturity = Fin 0, contributionSpan = Fin 0,
           repositoryDiversity = Fin 0, maintainerTrust = Fin 0, collaborationDepth = Fin 0,
           forkContributionRatio = Fin 0, originalRepoContributionRatio = Fin 0 \<rparr>,
       spamDetection =
         \<lparr> excessiveDailyPRs = False, excessiveHourlyActivity = False,
           sd_identicalCommitMessages = False, automatedPatterns = False,
           suspiciousTimePatterns = False, trivialPRs = Fin 0, whitespaceOnlyPRs = Fin 0,
           singleCharacterPRs = Fin 0, forkFarming = False, selfMergeFarming = False,
           repositoryFarming = False \<rparr>,
       redFlags = [], greenFlags = [''High maintainer trust''] \<rparr>"

definition mockCompatibilityResult :: "jsnum \<Rightarrow> CompatibilityScoreResult" where
  "mockCompatibilityResult s =
     \<lparr> co_totalScore = s, compatibilityLevel = CL_high,
       co_signals =
         \<lparr> technologyStackMatch = Fin 80, domainContributionDepth = Fin 75,
           architecturePatternMatch = Fin 70, fileTypeAlignment = Fin 80,
           activityTypeMatch = Fin 75, repositoryTypeMatch = Fin 70,
           reviewDomainExpertise = Fin 65 \<rparr>,
       negativeSignals =
         \<lparr> technologyMismatch = Fin 10, domainContradiction = Fin 5, insufficientDepth = Fin 0,
           architectureMismatch = Fin 0, technologyOverweight = Fin 0 \<rparr>,
       explanation =
         \<lparr> ex_role = ''backend'',
           ex_strengths = [''Strong technology stack match'', ''Deep domain contributions''],
           ex_weaknesses = [], evidence = [] \<rparr>,
       co_breakdown =
         \<lparr> technologyStack =
             \<lparr> matchedTechnologies = [''python'', ''go''], mismatchedTechnologies = [],
               tsb_score = Fin 80 \<rparr>,
           contributionDepth = \<lparr> cdb_relevantPRs = 15, cdb_totalPRs = 20, cdb_score = Fin 75 \<rparr>,
           architecturePatterns =
             \<lparr> detectedPatterns = [''microservices'', ''api-gateway''], apb_score = Fin 70 \<rparr> \<rparr> \<rparr>"

definition mockImpactResult :: "jsnum \<Rightarrow> ImpactScoreResult" where
  "mockImpactResult s =
     \<lparr> im_totalScore = s,
       im_components =
         \<lparr> prImpact =
             \<lparr> score = Fin 75,
               breakdown = \<lparr> mergedPRCount = Fin 0, reviewEngagement = Fin 0,
                             acceptanceRate = Fin 0, repoDiversity = Fin 0,
                             cb_maintainerTrust = Fin 0 \<rparr> \<rparr>,
           collaboration =
             \<lparr> score = Fin 70,
               breakdown = \<lparr> crossRepoContributions = Fin 0, cob_reviewReciprocity = Fin 0,
                             issueEngagement = Fin 0, teamParticipation = Fin 0 \<rparr> \<rparr>,
           longevity =
             \<lparr> score = Fin 65,
               breakdown = \<lparr> lb_activitySpan = Fin 0, consistency = Fin 0,
                             temporalDistribution = Fin 0 \<rparr> \<rparr>,
           quality =
             \<lparr> score = Fin 70,
               breakdown = \<lparr> reviewDepth = Fin 0, qb_maintainerTrust = Fin 0,
                             contributionComplexity = Fin 0, antiSpamScore = Fin 0 \<rparr> \<rparr> \<rparr>,
       im_signals =
         \<lparr> totalMergedPRs = Fin 50, selfMergedPRs = Fin 2, spamPRs = Fin 0,
           activeRepositories = Fin 10, activitySpanMonths = Fin 24 \<rparr>,
       explainability = \<lparr> topContributingRepos = [], recentActivity = [], penalties = [] \<rparr> \<rparr>"


text \<open>
  The account and the contribution pattern of the repository's trust tests
  (\<^verbatim>\<open>createMockAccount\<close>, \<^verbatim>\<open>createMockPattern\<close>), with the test's "now" at day 365 after the
  epoch: the account was created at the epoch, the contributions span the last 180 days.
\<close>

definition day :: "int \<Rightarrow> Date" where
  "day n = n * 86400000"

definition mockAccount :: GitHubAccount where
  "mockAccount =
     \<lparr> username = ''engineer1'', createdAt = day 0, publicRepos = Fin 10, followers = Fin 50,
       following = Fin 30, bio = Some ''Software engineer'', location = Some ''San Francisco'',
       company = Some ''Tech Corp'', website = Some ''https://example.com'',
       email = Some ''engineer@example.com'', isVerified = False \<rparr>"

definition mockPattern :: ContributionPattern where
  "mockPattern =
     \<lparr> totalPRs = Fin 20, cp_mergedPRs = Fin 15, openPRs = Fin 3, closedPRs = Fin 2,
       cp_selfMergedPRs = Fin 2, forkPRs = Fin 3, originalRepoPRs = Fin 17, forkOnlyRepos = [],
       originalRepoContributions = Fin 17, firstContributionDate = Some (day 185),
       lastContributionDate = Some (day 365), contributionDays = Fin 60,
       contributionMonths = Fin 6, averagePRsPerDay = Fin 0.1, maxPRsInSingleDay = Fin 2,
       uniqueRepositories = Fin 5, repositoriesWithMultiplePRs = Fin 3,
       repositoriesWithMaintainerInteraction = Fin 4, cp_reviewsGiven = Fin 10,
       cp_reviewsReceived = Fin 15, maintainerReviews = Fin 12, issuesOpened = Fin 8,
       issuesClosed = Fin 6, issuesWithPRs = Fin 5, commitMessagePatterns = [],
       commitTimePatterns = [], identicalCommitMessages = Fin 0, uniqueCollaborators = Fin 10,
       maintainerInteractions = Fin 12, crossRepositoryCollaborations = Fin 8 \<rparr>"

text \<open>
  All pull requests go to forks and none to an original repository, with a given list of
  fork-only repositories.
\<close>

definition forkPattern :: "string list \<Rightarrow> ContributionPattern" where
  "forkPattern repos =
     mockPattern \<lparr> forkPRs := Fin 20, originalRepoPRs := Fin 0,
                   originalRepoContributions := Fin 0, forkOnlyRepos := repos,
                   totalPRs := Fin 20 \<rparr>"

text \<open>
  The same with an empty list of fork-only repositories, as the repository's producers
  of contribution patterns fill it, and with 19 repositories and 49 collaborators.
\<close>

definition forkOnlyPattern :: ContributionPattern where
  "forkOnlyPattern =
     (forkPattern []) \<lparr> uniqueRepositories := Fin 19, uniqueCollaborators := Fin 49 \<rparr>"

text \<open>
  The activity of the repository's impact tests (\<^verbatim>\<open>createMockActivity\<close>): no reviews, issues
  or repositories, an activity span over the last year, "now" at day 365; and the
  self-merged pull request of the test "should exclude self-merged PRs", merged at a
  given day by a given account.
\<close>

definition mockActivity :: "MergedPR list \<Rightarrow> GitHubActivity" where
  "mockActivity ps =
     \<lparr> mergedPRs = ps, ga_reviewsGiven = [], ga_reviewsReceived = [], ga_issues = [],
       ga_repositories = [],
       activitySpan = \<lparr> firstPRDate = day 0, lastPRDate = day 365 \<rparr> \<rparr>"

definition mockPR :: "int \<Rightarrow> string \<Rightarrow> MergedPR" where
  "mockPR d merger =
     \<lparr> mpr_id = ''1'', mpr_repository = ''repo1'', mpr_mergedAt = day d, mpr_mergedBy = merger,
       mpr_author = ''engineer1'', mpr_reviewCommentsReceived = Fin 5, mpr_reviewRounds = Fin 2,
       mpr_filesChanged = Fin 10, mpr_directoriesTouched = Fin 3,
       mpr_isMaintainerMerge = (if merger = ''engineer1'' then False else True),
       mpr_isFork = False, mpr_timeToMerge = Fin 24 \<rparr>"

text \<open>A calendar of twelve months of thirty days, for the sample inputs.\<close>

definition mockCalendar :: Calendar where
  "mockCalendar =
     \<lparr> getFullYear = (\<lambda>d. 1970 + d div (360 * 86400000)),
       getMonth = (\<lambda>d. (d div (30 * 86400000)) mod 12) \<rparr>"

text \<open>
  The pattern of the trust test "should handle empty contribution pattern": no pull
  requests, no repositories, no dates, the other fields as in the mock.
\<close>

definition emptyPattern :: ContributionPattern where
  "emptyPattern =
     mockPattern \<lparr> totalPRs := Fin 0, cp_mergedPRs := Fin 0, uniqueRepositories := Fin 0,
                   firstContributionDate := None, lastContributionDate := None \<rparr>"

text \<open>An account created ten days before the test's "now".\<close>

definition newAccount :: GitHubAccount where
  "newAccount = mockAccount \<lparr> createdAt := day 355 \<rparr>"

text \<open>
  The inputs of the repository's compatibility tests: an activity that has only pull
  requests (\<^verbatim>\<open>createMockActivity\<close>; the empty list is the test's empty activity), a query
  for a role without hints, and the first pull request of the test "should score high for
  backend engineer with backend PRs".
\<close>

definition roleQuery :: "RoleType \<Rightarrow> RoleQuery" where
  "roleQuery r = \<lparr> role = r, requiredTechnologies = None, preferredExperience = None \<rparr>"

definition activityOf :: "PRAnalysis list \<Rightarrow> EngineerActivity" where
  "activityOf ps = \<lparr> prs = ps, issues = [], repositories = [], codeReviews = [] \<rparr>"

definition backendPR :: PRAnalysis where
  "backendPR =
     \<lparr> pra_id = ''1'', pra_repository = ''api-server'',
       pra_title = ''Add REST API endpoint for users'',
       pra_body = Some ''Implemented new user endpoint with authentication'',
       pra_mergedAt = day 365,
       pra_filesChanged =
         [\<lparr> filePath = ''src/api/users.py'', fileExtension = ''.py'', changeType = Added,
            linesAdded = Fin 50, linesDeleted = Fin 0, directory = ''src/api'' \<rparr>],
       pra_languages = [''python''], pra_directories = [''src/api''],
       isInfrastructureChange = False, isAPIChange = True, isUIChange = False,
       isDatabaseChange = False, isConfigChange = False, isTestChange = False,
       isDocumentationChange = False \<rparr>"

section \<open>Verified properties\<close>

lemmas mock_defs = mockTrustResult_def mockCompatibilityResult_def mockImpactResult_def

lemmas match_config_defs = matchFullConfig_def DEFAULT_MATCH_CONFIG_def spread_def optField_def

subsection \<open>Recruiter match: gating\<close>

text \<open>
  Claim C2. For every trust, compatibility and impact result and every configuration
  override: when the trust total is below the trust threshold, or the compatibility total
  below the compatibility threshold, or the impact total below the impact threshold of
  the merged configuration, \<open>calculateRecruiterMatchScore\<close> returns a total of 0, the three
  reported components 0 and the three boosts 1. Without an override the thresholds are
  50, 30 and 20.
\<close>

theorem recruiter_match_gate:
  fixes t c i cfg
  defines "fc \<equiv> matchFullConfig cfg"
  defines "r \<equiv> calculateRecruiterMatchScore t c i cfg"
  assumes "tr_totalScore t < th_trust (minimumThresholds fc)
         \<or> co_totalScore c < th_compatibility (minimumThresholds fc)
         \<or> im_totalScore i < th_impact (minimumThresholds fc)"
  shows "minimumThresholds (matchFullConfig None)
           = \<lparr> th_trust = Fin 50, th_compatibility = Fin 30, th_impact = Fin 20 \<rparr>
       \<and> totalMatchScore r = Fin 0 \<and> rm_trustComponent r = Fin 0
       \<and> rm_compatibilityComponent r = Fin 0 \<and> rm_impactComponent r = Fin 0
       \<and> cd_boosts (calculationDetails r)
           = \<lparr> b_trust = Fin 1, b_compatibility = Fin 1, b_impact = Fin 1 \<rparr>"
proof -
  have "minimumThresholds (matchFullConfig None)
           = \<lparr> th_trust = Fin 50, th_compatibility = Fin 30, th_impact = Fin 20 \<rparr>"
    by (simp add: match_config_defs)
  moreover have "calculateWeightedScore (tr_totalScore t) (co_totalScore c) (im_totalScore i) fc
                   = gatedScore"
    using assms(3) by (auto simp add: calculateWeightedScore_def)
  ultimately show ?thesis
    by (simp add: r_def fc_def calculateRecruiterMatchScore_def gatedScore_def Let_def)
qed

text \<open>The instance of the claim: trust 40, compatibility 75, impact 70, no override.\<close>

theorem recruiter_match_gate_witness:
  "tr_totalScore (mockTrustResult (Fin 40)) < th_trust (minimumThresholds (matchFullConfig None))
   \<and> totalMatchScore (calculateRecruiterMatchScore (mockTrustResult (Fin 40))
        (mockCompatibilityResult (Fin 75)) (mockImpactResult (Fin 70)) None) = Fin 0"
  using recruiter_match_gate [of "mockTrustResult (Fin 40)" None
      "mockCompatibilityResult (Fin 75)" "mockImpactResult (Fin 70)"]
  by (simp add: mock_defs match_config_defs)

subsection \<open>Recruiter match: boosts and reported components\<close>

text \<open>
  Claim C8. When no gate fires, the reported trust, compatibility and impact components
  are the axis totals times their weights, without any boost; the total is the sum of the
  boosted weighted contributions, capped at 100; the boosts are the configured factors
  when trust exceeds 80, compatibility exceeds 85 and impact exceeds 90, and 1 otherwise.
  Without an override the factors are 1.1, 1.15 and 1.05 and the weights 0.4, 0.4, 0.2.
\<close>

theorem recruiter_match_components_unboosted:
  fixes t c i cfg
  defines "fc \<equiv> matchFullConfig cfg"
  defines "r \<equiv> calculateRecruiterMatchScore t c i cfg"
  defines "bt \<equiv> (if Fin 80 < tr_totalScore t then highTrustBoost (boostFactors fc) else Fin 1)"
  defines "bc \<equiv> (if Fin 85 < co_totalScore c then highCompatibilityBoost (boostFactors fc)
                  else Fin 1)"
  defines "bi \<equiv> (if Fin 90 < im_totalScore i then highImpactBoost (boostFactors fc) else Fin 1)"
  assumes "\<not> tr_totalScore t < th_trust (minimumThresholds fc)"
      and "\<not> co_totalScore c < th_compatibility (minimumThresholds fc)"
      and "\<not> im_totalScore i < th_impact (minimumThresholds fc)"
  shows "rm_trustComponent r = tr_totalScore t * w_trust (weights fc)
       \<and> rm_compatibilityComponent r = co_totalScore c * w_compatibility (weights fc)
       \<and> rm_impactComponent r = im_totalScore i * w_impact (weights fc)
       \<and> totalMatchScore r
           = jmin (tr_totalScore t * w_trust (weights fc) * bt
                   + co_totalScore c * w_compatibility (weights fc) * bc
                   + im_totalScore i * w_impact (weights fc) * bi) (Fin 100)
       \<and> cd_boosts (calculationDetails r)
           = \<lparr> b_trust = bt, b_compatibility = bc, b_impact = bi \<rparr>
       \<and> boostFactors (matchFullConfig None)
           = \<lparr> highTrustBoost = Fin 1.1, highCompatibilityBoost = Fin 1.15,
               highImpactBoost = Fin 1.05 \<rparr>
       \<and> weights (matchFullConfig None)
           = \<lparr> w_trust = Fin 0.4, w_compatibility = Fin 0.4, w_impact = Fin 0.2 \<rparr>"
  using assms(6-8)
  by (simp add: r_def fc_def bt_def bc_def bi_def calculateRecruiterMatchScore_def
        calculateWeightedScore_def Let_def match_config_defs)

text \<open>
  Trust 90, compatibility 75, impact 70: the trust component is 36 although the total
  holds the boosted 39.6.
\<close>

theorem recruiter_match_components_unboosted_witness:
  "\<not> tr_totalScore (mockTrustResult (Fin 90)) < th_trust (minimumThresholds (matchFullConfig None))
   \<and> \<not> co_totalScore (mockCompatibilityResult (Fin 75))
         < th_compatibility (minimumThresholds (matchFullConfig None))
   \<and> \<not> im_totalScore (mockImpactResult (Fin 70)) < th_impact (minimumThresholds (matchFullConfig None))
   \<and> rm_trustComponent (calculateRecruiterMatchScore (mockTrustResult (Fin 90))
        (mockCompatibilityResult (Fin 75)) (mockImpactResult (Fin 70)) None) = Fin 36
   \<and> totalMatchScore (calculateRecruiterMatchScore (mockTrustResult (Fin 90))
        (mockCompatibilityResult (Fin 75)) (mockImpactResult (Fin 70)) None) = Fin 83.6"
  using recruiter_match_components_unboosted [of "mockTrustResult (Fin 90)" None
      "mockCompatibilityResult (Fin 75)" "mockImpactResult (Fin 70)"]
  by (simp add: mock_defs match_config_defs)

subsection \<open>Recruiter match: the summary of a poor match\<close>

lemma levelOf_below_30: "s < Fin 30 \<Longrightarrow> levelOf s = (Lvl_poor, Rec_not_recommended)"
  by (cases s) (simp_all add: levelOf_def)

lemma summary_below_30:
  "s < Fin 30 \<Longrightarrow> prefix ''Fair match'' (generateSummary t c i s)"
  by (cases s) (simp_all add: generateSummary_def Let_def)

text \<open>
  Claim C10. Whenever the computed total match score is below 30, which includes every
  candidate gated to 0, the recruiter view has match level poor and recommendation
  not-recommended, and yet its summary begins with the words "Fair match".
\<close>

theorem poor_match_summary_says_fair:
  fixes t c i cfg
  defines "r \<equiv> calculateRecruiterMatchScore t c i cfg"
  assumes "totalMatchScore r < Fin 30"
  shows "matchLevel (recruiterView r) = Lvl_poor
       \<and> recommendation (recruiterView r) = Rec_not_recommended
       \<and> prefix ''Fair match'' (summary (recruiterView r))"
  using assms(2) levelOf_below_30 [of "totalMatchScore r"]
    summary_below_30 [of "totalMatchScore r" t c i]
  by (simp add: r_def calculateRecruiterMatchScore_def generateRecruiterView_def Let_def)

text \<open>A candidate gated to 0 by a trust total of 40.\<close>

theorem poor_match_summary_says_fair_witness:
  "totalMatchScore (calculateRecruiterMatchScore (mockTrustResult (Fin 40))
        (mockCompatibilityResult (Fin 75)) (mockImpactResult (Fin 70)) None) < Fin 30
   \<and> matchLevel (recruiterView (calculateRecruiterMatchScore (mockTrustResult (Fin 40))
        (mockCompatibilityResult (Fin 75)) (mockImpactResult (Fin 70)) None)) = Lvl_poor
   \<and> summary (recruiterView (calculateRecruiterMatchScore (mockTrustResult (Fin 40))
        (mockCompatibilityResult (Fin 75)) (mockImpactResult (Fin 70)) None))
       = ''Fair match, with backend role, and authentic profile, showing strong role alignment.''"
  using poor_match_summary_says_fair [of "mockTrustResult (Fin 40)"
      "mockCompatibilityResult (Fin 75)" "mockImpactResult (Fin 70)" None]
  by (simp add: mock_defs match_config_defs calculateRecruiterMatchScore_def
        calculateWeightedScore_def gatedScore_def generateRecruiterView_def
        generateSummary_def Let_def)

subsection \<open>Recruiter match: view separation\<close>

lemma json_keys_strings: "json_keys (JArr (map JStr xs)) = []"
  by (induction xs) simp_all

text \<open>
  Claim C4. For every input, the engineer view is built from the three score results
  alone (the configuration and the match score do not enter it), the object it is
  serialised to has exactly the keys listed below, so neither \<^verbatim>\<open>matchScore\<close> nor
  \<^verbatim>\<open>recommendation\<close> occurs at any depth, and the red flags of the recruiter view are
  drawn, without repetition, from the three whitelisted strings: at most three entries,
  however many red flags the trust result carries.
\<close>

theorem engineer_view_separation:
  fixes t c i cfg
  defines "r \<equiv> calculateRecruiterMatchScore t c i cfg"
  shows "engineerView r = generateEngineerView t c i
       \<and> json_keys (engineerViewObject (engineerView r))
           = [''trustScore'', ''total'', ''isAuthentic'', ''confidence'', ''components'',
              ''accountAuthenticity'', ''contributionAuthenticity'', ''collaborationSignals'',
              ''antiGamingScore'', ''greenFlags'', ''redFlags'',
              ''compatibilityScore'', ''total'', ''compatibilityLevel'', ''signals'',
              ''technologyStackMatch'', ''domainContributionDepth'', ''architecturePatternMatch'',
              ''fileTypeAlignment'', ''activityTypeMatch'', ''repositoryTypeMatch'',
              ''reviewDomainExpertise'', ''strengths'', ''weaknesses'',
              ''impactScore'', ''total'', ''components'', ''prImpact'', ''collaboration'',
              ''longevity'', ''quality'', ''signals'', ''totalMergedPRs'', ''activeRepositories'',
              ''activitySpanMonths'', ''improvementSuggestions'']
       \<and> ''matchScore'' \<notin> set (json_keys (engineerViewObject (engineerView r)))
       \<and> ''recommendation'' \<notin> set (json_keys (engineerViewObject (engineerView r)))
       \<and> set (rv_redFlags (recruiterView r))
           \<subseteq> {''Profile authenticity concerns'', ''Fork-only contributions detected'',
               ''Poor role compatibility''}
       \<and> distinct (rv_redFlags (recruiterView r))
       \<and> length (rv_redFlags (recruiterView r)) \<le> 3"
proof -
  have keys: "json_keys (engineerViewObject v)
           = [''trustScore'', ''total'', ''isAuthentic'', ''confidence'', ''components'',
              ''accountAuthenticity'', ''contributionAuthenticity'', ''collaborationSignals'',
              ''antiGamingScore'', ''greenFlags'', ''redFlags'',
              ''compatibilityScore'', ''total'', ''compatibilityLevel'', ''signals'',
              ''technologyStackMatch'', ''domainContributionDepth'', ''architecturePatternMatch'',
              ''fileTypeAlignment'', ''activityTypeMatch'', ''repositoryTypeMatch'',
              ''reviewDomainExpertise'', ''strengths'', ''weaknesses'',
              ''impactScore'', ''total'', ''components'', ''prImpact'', ''collaboration'',
              ''longevity'', ''quality'', ''signals'', ''totalMergedPRs'', ''activeRepositories'',
              ''activitySpanMonths'', ''improvementSuggestions'']" for v
    by (simp add: engineerViewObject_def json_keys_strings del: json_keys.simps(2))
  have ev: "engineerView r = generateEngineerView t c i"
    by (simp add: r_def calculateRecruiterMatchScore_def Let_def)
  have flags: "set (rv_redFlags (recruiterView r))
           \<subseteq> {''Profile authenticity concerns'', ''Fork-only contributions detected'',
               ''Poor role compatibility''}
       \<and> distinct (rv_redFlags (recruiterView r))
       \<and> length (rv_redFlags (recruiterView r)) \<le> 3"
    by (simp add: r_def calculateRecruiterMatchScore_def generateRecruiterView_def Let_def)
  show ?thesis
    using ev flags by (simp add: keys)
qed

subsection \<open>Trust: fork farming\<close>

lemmas trust_config_defs = trustFullConfig_def DEFAULT_TRUST_CONFIG_def spread_def spreadOpt_def
  optField_def nullish_def

lemma log_nonzero: "\<not> log 10 20 = (0::real) \<and> \<not> log 10 50 = (0::real)"
proof -
  have a: "(0::real) < log 10 20" by simp
  have b: "(0::real) < log 10 50" by simp
  from a b show ?thesis by (metis less_irrefl)
qed

text \<open>
  Claim C7 fails on the code. A contribution pattern in which all 20 pull requests are
  fork pull requests and \<^verbatim>\<open>originalRepoContributions\<close> is 0 should give \<open>forkFarming\<close> true,
  \<open>isAuthentic\<close> false and the red flag "Fork-only contributions detected". With the
  list of fork-only repositories empty, \<open>detectSpamPatterns\<close> does not detect fork
  farming: the profile counts as authentic and the only red flag is the fork ratio,
  while \<open>calculateAntiGamingScore\<close> applies its fork-only penalty of 100 to the same
  pattern.
\<close>

theorem fork_only_prs_not_flagged:
  "jeq (forkPRs forkOnlyPattern) (totalPRs forkOnlyPattern)
   \<and> totalPRs forkOnlyPattern > Fin 0
   \<and> jeq (originalRepoContributions forkOnlyPattern) (Fin 0)
   \<and> \<not> forkFarming (spamDetection (calculateTrustScore (\<lambda>n. day 365) mockAccount
           forkOnlyPattern None))
   \<and> isAuthentic (calculateTrustScore (\<lambda>n. day 365) mockAccount forkOnlyPattern None)
   \<and> redFlags (calculateTrustScore (\<lambda>n. day 365) mockAccount forkOnlyPattern None)
       = [''High fork contribution ratio'']
   \<and> forkFarmingPenalty (breakdown (antiGamingScore (tr_components
        (calculateTrustScore (\<lambda>n. day 365) mockAccount forkOnlyPattern None)))) = Fin 100"
  using log_nonzero
  by (simp add: forkOnlyPattern_def forkPattern_def mockPattern_def mockAccount_def
        calculateTrustScore_def detectSpamPatterns_def trustRedFlags_def
        calculateAccountAuthenticity_def calculateContributionAuthenticity_def
        calculateCollaborationSignals_def calculateAntiGamingScore_def truthy_str_def
        spanDays_def clamp100_def Let_def trust_config_defs day_def getTime_def msPerDay_def)

subsection \<open>Impact: self-merged pull requests\<close>

lemmas impact_config_defs = impactFullConfig_def DEFAULT_IMPACT_CONFIG_def spread_def
  spreadOpt_def optField_def nullish_def

lemma valid_of_filtered:
  "fst (filterSelfMergedPRs (filter (\<lambda>pr. \<not> isSelfMerged pr) ps))
     = fst (filterSelfMergedPRs ps)"
  by (simp add: filterSelfMergedPRs_def)

lemma valid_all_self_merged:
  "\<forall>pr \<in> set ps. isSelfMerged pr \<Longrightarrow> fst (filterSelfMergedPRs ps) = []"
  by (simp add: filterSelfMergedPRs_def)

lemma clean_of_no_valid: "fst (filterSpamPRs [] config) = []"
  by (simp add: filterSpamPRs_def)

text \<open>
  Claim C5, as the code has it. Self-merged pull requests are removed before anything
  else is computed (the spam filter runs on what the self-merge filter left): the result
  for an activity is the result for the activity without its self-merged pull requests,
  except for three counts, in which they appear: \<^verbatim>\<open>signals.totalMergedPRs\<close> (the length of
  the input), \<^verbatim>\<open>signals.selfMergedPRs\<close> and the count of the penalty entry
  "Self-merged PRs excluded". In particular no component score and no total depends on
  them. When every pull request is self-merged, the four component scores are 0, and
  so is the total under the default configuration.
\<close>

theorem self_merged_prs_excluded:
  fixes clock cal act cfg
  defines "r \<equiv> calculateImpactScore clock cal act cfg"
  defines "r' \<equiv> calculateImpactScore clock cal
                  (act \<lparr> mergedPRs := filter (\<lambda>pr. \<not> isSelfMerged pr) (mergedPRs act) \<rparr>) cfg"
  defines "k \<equiv> of_len (filter isSelfMerged (mergedPRs act))"
  shows "r = r' \<lparr> im_signals := (im_signals r')
                      \<lparr> totalMergedPRs := of_len (mergedPRs act), selfMergedPRs := k \<rparr>,
                  explainability := (explainability r')
                      \<lparr> penalties :=
                          [\<lparr> reason = ''Self-merged PRs excluded'', pen_count = k,
                             pen_impact = Fin 0 \<rparr>,
                           \<lparr> reason = ''Spam PRs filtered'',
                             pen_count = spamPRs (im_signals r'), pen_impact = Fin 0 \<rparr>] \<rparr> \<rparr>
       \<and> im_components r = im_components r'
       \<and> im_totalScore r = im_totalScore r'
       \<and> selfMergedPRs (im_signals r') = Fin 0
       \<and> ((\<forall>pr \<in> set (mergedPRs act). mpr_author pr = mpr_mergedBy pr) \<longrightarrow>
            score (prImpact (im_components r)) = Fin 0
          \<and> score (collaboration (im_components r)) = Fin 0
          \<and> score (longevity (im_components r)) = Fin 0
          \<and> score (quality (im_components r)) = Fin 0
          \<and> im_totalScore (calculateImpactScore clock cal act None) = Fin 0)"
proof -
  have whole: "r = r' \<lparr> im_signals := (im_signals r')
                      \<lparr> totalMergedPRs := of_len (mergedPRs act), selfMergedPRs := k \<rparr>,
                  explainability := (explainability r')
                      \<lparr> penalties :=
                          [\<lparr> reason = ''Self-merged PRs excluded'', pen_count = k,
                             pen_impact = Fin 0 \<rparr>,
                           \<lparr> reason = ''Spam PRs filtered'',
                             pen_count = spamPRs (im_signals r'), pen_impact = Fin 0 \<rparr>] \<rparr> \<rparr>"
    unfolding r_def r'_def k_def calculateImpactScore_def Let_def
    by (simp add: valid_of_filtered) (simp add: filterSelfMergedPRs_def)
  have same: "im_components r = im_components r' \<and> im_totalScore r = im_totalScore r'"
    unfolding r_def r'_def calculateImpactScore_def Let_def
    by (simp add: valid_of_filtered)
  have none: "selfMergedPRs (im_signals r') = Fin 0"
    unfolding r'_def calculateImpactScore_def Let_def
    by (simp add: filterSelfMergedPRs_def of_len_def)
  have zero: "score (prImpact (im_components r)) = Fin 0
          \<and> score (collaboration (im_components r)) = Fin 0
          \<and> score (longevity (im_components r)) = Fin 0
          \<and> score (quality (im_components r)) = Fin 0
          \<and> im_totalScore (calculateImpactScore clock cal act None) = Fin 0"
    if all: "\<forall>pr \<in> set (mergedPRs act). mpr_author pr = mpr_mergedBy pr"
  proof -
    from all have "\<forall>pr \<in> set (mergedPRs act). isSelfMerged pr"
      by (simp add: isSelfMerged_def)
    then have v: "fst (filterSelfMergedPRs (mergedPRs act)) = []"
      by (rule valid_all_self_merged)
    show ?thesis
      unfolding r_def calculateImpactScore_def Let_def
      by (simp add: v clean_of_no_valid calculatePRImpactScore_def
            calculateCollaborationScore_def calculateLongevityScore_def
            calculateQualityScore_def impact_config_defs clamp100_def)
  qed
  from whole same none zero show ?thesis by blast
qed

text \<open>The activity of the repository's test "should exclude self-merged PRs".\<close>

theorem self_merged_prs_excluded_witness:
  "list_all (\<lambda>pr. mpr_author pr = mpr_mergedBy pr)
     (mergedPRs (mockActivity [mockPR 365 ''engineer1'']))
   \<and> im_totalScore (calculateImpactScore (\<lambda>n. day 365) mockCalendar
        (mockActivity [mockPR 365 ''engineer1'']) None) = Fin 0
   \<and> score (prImpact (im_components (calculateImpactScore (\<lambda>n. day 365) mockCalendar
        (mockActivity [mockPR 365 ''engineer1'']) None))) = Fin 0"
proof -
  let ?A = "mockActivity [mockPR 365 ''engineer1'']"
  note th = self_merged_prs_excluded [of "\<lambda>n. day 365" mockCalendar ?A None]
  have h: "\<forall>pr \<in> set (mergedPRs ?A). mpr_author pr = mpr_mergedBy pr"
    by (simp add: mockActivity_def mockPR_def)
  from th have "(\<forall>pr \<in> set (mergedPRs ?A). mpr_author pr = mpr_mergedBy pr) \<longrightarrow>
      score (prImpact (im_components (calculateImpactScore (\<lambda>n. day 365) mockCalendar ?A None)))
        = Fin 0
      \<and> im_totalScore (calculateImpactScore (\<lambda>n. day 365) mockCalendar ?A None) = Fin 0"
    by (elim conjE) (rule impI, elim impE, assumption, elim conjE, intro conjI, assumption+)
  with h have b: "score (prImpact (im_components
        (calculateImpactScore (\<lambda>n. day 365) mockCalendar ?A None))) = Fin 0
      \<and> im_totalScore (calculateImpactScore (\<lambda>n. day 365) mockCalendar ?A None) = Fin 0"
    by (rule mp [rotated])
  from h have h': "list_all (\<lambda>pr. mpr_author pr = mpr_mergedBy pr) (mergedPRs ?A)"
    by (simp only: list_all_iff)
  from h' b show ?thesis by (simp only: simp_thms)
qed

text \<open>
  Claim C5 as stated fails: a self-merged pull request does not contribute to
  \<^verbatim>\<open>signals.selfMergedPRs\<close> only. For the activity of that test, \<^verbatim>\<open>signals.totalMergedPRs\<close>
  is 1 and the first penalty entry counts 1, where the activity without the pull
  request has 0 in both.
\<close>

theorem self_merged_pr_counted_elsewhere:
  "mpr_author (mockPR 365 ''engineer1'') = mpr_mergedBy (mockPR 365 ''engineer1'')
   \<and> totalMergedPRs (im_signals (calculateImpactScore (\<lambda>n. day 365) mockCalendar
        (mockActivity [mockPR 365 ''engineer1'']) None)) = Fin 1
   \<and> totalMergedPRs (im_signals (calculateImpactScore (\<lambda>n. day 365) mockCalendar
        (mockActivity []) None)) = Fin 0
   \<and> penalties (explainability (calculateImpactScore (\<lambda>n. day 365) mockCalendar
        (mockActivity [mockPR 365 ''engineer1'']) None))
       = [\<lparr> reason = ''Self-merged PRs excluded'', pen_count = Fin 1, pen_impact = Fin 0 \<rparr>,
          \<lparr> reason = ''Spam PRs filtered'', pen_count = Fin 0, pen_impact = Fin 0 \<rparr>]
   \<and> penalties (explainability (calculateImpactScore (\<lambda>n. day 365) mockCalendar
        (mockActivity []) None))
       = [\<lparr> reason = ''Self-merged PRs excluded'', pen_count = Fin 0, pen_impact = Fin 0 \<rparr>,
          \<lparr> reason = ''Spam PRs filtered'', pen_count = Fin 0, pen_impact = Fin 0 \<rparr>]"
  by (simp add: calculateImpactScore_def Let_def mockActivity_def mockPR_def
        filterSelfMergedPRs_def isSelfMerged_def filterSpamPRs_def of_len_def)

subsection \<open>Trust and impact: the wall clock\<close>

text \<open>
  Claim C3 fails on the code: the trust and the impact calculator read the wall clock.
  The same account and pattern give an account-authenticity score of about 60.3 and the
  red flag "Account too new" at day 365, and a score of 100 and no red flag a year
  later; the same pull request has a recent-activity impact of 10 on the day of its
  merge and of 9.5 thirty days later.
\<close>

theorem calculators_read_the_clock:
  "score (accountAuthenticity (tr_components
      (calculateTrustScore (\<lambda>n. day 365) newAccount mockPattern None))) = Fin (4404 / 73)
   \<and> score (accountAuthenticity (tr_components
      (calculateTrustScore (\<lambda>n. day 730) newAccount mockPattern None))) = Fin 100
   \<and> redFlags (calculateTrustScore (\<lambda>n. day 365) newAccount mockPattern None)
       = [''Account too new'']
   \<and> redFlags (calculateTrustScore (\<lambda>n. day 730) newAccount mockPattern None) = []
   \<and> \<not> calculateTrustScore (\<lambda>n. day 365) newAccount mockPattern None
       = calculateTrustScore (\<lambda>n. day 730) newAccount mockPattern None
   \<and> recentActivity (explainability (calculateImpactScore (\<lambda>n. day 365) mockCalendar
        (mockActivity [mockPR 365 ''maintainer1'']) None))
       = [\<lparr> re_date = day 365, event = ''Merged PR in repo1'', re_impact = Fin 10 \<rparr>]
   \<and> recentActivity (explainability (calculateImpactScore (\<lambda>n. day 395) mockCalendar
        (mockActivity [mockPR 365 ''maintainer1'']) None))
       = [\<lparr> re_date = day 365, event = ''Merged PR in repo1'', re_impact = Fin 9.5 \<rparr>]"
proof -
  have a: "score (accountAuthenticity (tr_components
      (calculateTrustScore (\<lambda>n. day 365) newAccount mockPattern None))) = Fin (4404 / 73)"
    by (simp add: newAccount_def mockPattern_def mockAccount_def calculateTrustScore_def
        calculateAccountAuthenticity_def spanDays_def truthy_str_def clamp100_def
        Let_def trust_config_defs day_def getTime_def msPerDay_def)
  have b: "score (accountAuthenticity (tr_components
      (calculateTrustScore (\<lambda>n. day 730) newAccount mockPattern None))) = Fin 100"
    by (simp add: newAccount_def mockPattern_def mockAccount_def calculateTrustScore_def
        calculateAccountAuthenticity_def spanDays_def truthy_str_def clamp100_def
        Let_def trust_config_defs day_def getTime_def msPerDay_def)
  have c: "redFlags (calculateTrustScore (\<lambda>n. day 365) newAccount mockPattern None)
       = [''Account too new'']"
    by (simp add: newAccount_def mockPattern_def mockAccount_def calculateTrustScore_def
        detectSpamPatterns_def trustRedFlags_def Let_def trust_config_defs day_def getTime_def
        msPerDay_def)
  have d: "redFlags (calculateTrustScore (\<lambda>n. day 730) newAccount mockPattern None) = []"
    by (simp add: newAccount_def mockPattern_def mockAccount_def calculateTrustScore_def
        detectSpamPatterns_def trustRedFlags_def Let_def trust_config_defs day_def getTime_def
        msPerDay_def)
  from c d have e: "\<not> calculateTrustScore (\<lambda>n. day 365) newAccount mockPattern None
       = calculateTrustScore (\<lambda>n. day 730) newAccount mockPattern None"
    by (metis list.distinct(1))
  have f: "recentActivity (explainability (calculateImpactScore (\<lambda>n. day 365) mockCalendar
        (mockActivity [mockPR 365 ''maintainer1'']) None))
       = [\<lparr> re_date = day 365, event = ''Merged PR in repo1'', re_impact = Fin 10 \<rparr>]"
    by (simp add: calculateImpactScore_def Let_def mockActivity_def mockPR_def
        filterSelfMergedPRs_def isSelfMerged_def filterSpamPRs_def isSpamPR_def dayKey_def
        impact_config_defs of_len_def applyTimeDecay_def getTime_def msPerMonth_def day_def)
  have g: "recentActivity (explainability (calculateImpactScore (\<lambda>n. day 395) mockCalendar
        (mockActivity [mockPR 365 ''maintainer1'']) None))
       = [\<lparr> re_date = day 365, event = ''Merged PR in repo1'', re_impact = Fin 9.5 \<rparr>]"
    by (simp add: calculateImpactScore_def Let_def mockActivity_def mockPR_def
        filterSelfMergedPRs_def isSelfMerged_def filterSpamPRs_def isSpamPR_def dayKey_def
        impact_config_defs of_len_def applyTimeDecay_def getTime_def msPerMonth_def day_def)
  from a b c d e f g show ?thesis by (simp only: simp_thms)
qed

subsection \<open>Compatibility: the range of the signals\<close>

lemma backend_keyword: "hasKeyword (ROLE_TECHNOLOGY_INDICATORS Backend) (prText backendPR)"
  by (simp add: hasKeyword_def ROLE_TECHNOLOGY_INDICATORS_def prText_def backendPR_def
        toLowerCase_def lower_char_def orEmpty_def)

lemma backend_files:
  "relevantFiles (analyzeFileChanges (pra_filesChanged backendPR) Backend) = 1
   \<and> totalFiles (analyzeFileChanges (pra_filesChanged backendPR) Backend) = 1"
  by (simp add: analyzeFileChanges_def fileIsRelevant_def ROLE_TECHNOLOGY_INDICATORS_def
        backendPR_def toLowerCase_def lower_char_def Let_def)

text \<open>
  Claim C1 fails on the code. A pull request whose only file is a \<^verbatim>\<open>.py\<close> file and whose
  title holds the keyword "api" is counted twice by \<open>calculateDomainContributionDepth\<close>:
  with this single pull request the activity has 2 relevant pull requests out of 1, and
  the signal \<^verbatim>\<open>domainContributionDepth\<close> of the compatibility result is 200.
\<close>

theorem domain_depth_counts_twice:
  "relevantPRs (calculateDomainContributionDepth (activityOf [backendPR]) Backend) = 2
   \<and> da_totalPRs (calculateDomainContributionDepth (activityOf [backendPR]) Backend) = 1
   \<and> domainContributionDepth (co_signals
        (calculateCompatibilityScore (activityOf [backendPR]) (roleQuery Backend))) = Fin 200
   \<and> \<not> domainContributionDepth (co_signals
        (calculateCompatibilityScore (activityOf [backendPR]) (roleQuery Backend))) \<le> Fin 100"
proof -
  have d: "depthPR Backend 0 backendPR = 2"
    using backend_keyword backend_files
    by (simp add: depthPR_def Let_def of_count_def)
  then show ?thesis
    by (simp add: calculateCompatibilityScore_def calculateDomainContributionDepth_def
          activityOf_def roleQuery_def Let_def of_count_def)
qed

subsection \<open>Compatibility: division by an empty list of pull requests\<close>

lemma nan_absorbs:
  "x + NaN = NaN" "x - NaN = NaN" "x * NaN = NaN" "x / NaN = NaN"
  "jmin x NaN = NaN" "jmax x NaN = NaN"
  by (cases x; simp)+

text \<open>
  Claim C6 fails on the code. \<open>calculateNegativeSignals\<close> divides the mismatch count by
  the number of pull requests without a guard: for an activity without pull requests
  the technology mismatch is \<open>0 / 0\<close>, that is \<open>NaN\<close>, and so are the domain
  contradiction that mirrors it and the total score of the result. \<open>detectSpamPatterns\<close>
  divides the self-merged count by \<^verbatim>\<open>totalPRs\<close> without a guard as well: for the empty
  pattern of the trust tests the ratio is \<open>2 / 0\<close>, that is \<open>Infinity\<close>, and self-merge
  farming is reported.
\<close>

theorem empty_activity_gives_nan:
  "technologyMismatch (negativeSignals
      (calculateCompatibilityScore (activityOf []) (roleQuery Backend))) = NaN
   \<and> domainContradiction (negativeSignals
      (calculateCompatibilityScore (activityOf []) (roleQuery Backend))) = NaN
   \<and> co_totalScore (calculateCompatibilityScore (activityOf []) (roleQuery Backend)) = NaN
   \<and> cp_selfMergedPRs emptyPattern / totalPRs emptyPattern = PInf
   \<and> selfMergeFarming (spamDetection
        (calculateTrustScore (\<lambda>n. day 365) mockAccount emptyPattern None))"
proof -
  have n: "calculateNegativeSignals (activityOf []) Backend
             = \<lparr> technologyMismatch = NaN, domainContradiction = NaN,
                 insufficientDepth = Fin 100, architectureMismatch = Fin 50,
                 technologyOverweight = Fin 0 \<rparr>"
    by (simp add: calculateNegativeSignals_def calculateDomainContributionDepth_def
          calculateArchitecturePatternMatch_def calculateTechnologyStackMatch_def
          activityOf_def Let_def of_count_def of_len_def)
  have c: "technologyMismatch (negativeSignals
      (calculateCompatibilityScore (activityOf []) (roleQuery Backend))) = NaN
   \<and> domainContradiction (negativeSignals
      (calculateCompatibilityScore (activityOf []) (roleQuery Backend))) = NaN
   \<and> co_totalScore (calculateCompatibilityScore (activityOf []) (roleQuery Backend)) = NaN"
    by (simp add: calculateCompatibilityScore_def roleQuery_def Let_def n negativePenalty_def
          nan_absorbs)
  have t: "cp_selfMergedPRs emptyPattern / totalPRs emptyPattern = PInf
   \<and> selfMergeFarming (spamDetection
        (calculateTrustScore (\<lambda>n. day 365) mockAccount emptyPattern None))"
    by (simp add: emptyPattern_def mockPattern_def calculateTrustScore_def
          detectSpamPatterns_def Let_def)
  from c t show ?thesis by (simp only: simp_thms)
qed

subsection \<open>Compatibility: the architecture mismatch\<close>

text \<open>
  Claim C9, as the code has it. The negative signal \<^verbatim>\<open>architectureMismatch\<close> is 50 when no
  architecture pattern is detected for the role and 0 otherwise, and the total is the
  weighted sum of the positive signals minus the penalties, in which the architecture
  mismatch has weight 0.1, clamped to the range from 0 to 100.
\<close>

theorem architecture_mismatch_binary:
  fixes activity query
  defines "r \<equiv> calculateCompatibilityScore activity query"
  defines "n \<equiv> negativeSignals r"
  shows "architectureMismatch n
           = (if detectedPatterns (architecturePatterns (co_breakdown r)) = [] then Fin 50
              else Fin 0)
       \<and> co_totalScore r
           = jmax (Fin 0) (jmin (Fin 100)
               (weightedSignals (co_signals r) (getRoleWeights (role query))
                - (technologyMismatch n * Fin 0.15 + domainContradiction n * Fin 0.1
                   + insufficientDepth n * Fin 0.2 + architectureMismatch n * Fin 0.1
                   + technologyOverweight n * Fin 0.15)))"
  by (simp add: r_def n_def calculateCompatibilityScore_def calculateNegativeSignals_def
        negativePenalty_def Let_def)

text \<open>
  Claim C9 as stated fails: for the empty activity no pattern is detected and the
  architecture mismatch is 50, not 100.
\<close>

theorem architecture_mismatch_is_50:
  "patterns (calculateArchitecturePatternMatch (activityOf []) Backend) = []
   \<and> architectureMismatch (negativeSignals
        (calculateCompatibilityScore (activityOf []) (roleQuery Backend))) = Fin 50
   \<and> \<not> architectureMismatch (negativeSignals
        (calculateCompatibilityScore (activityOf []) (roleQuery Backend))) = Fin 100"
  by (simp add: calculateCompatibilityScore_def calculateNegativeSignals_def
        calculateArchitecturePatternMatch_def activityOf_def roleQuery_def Let_def)

end
